theory Spec2Isabelle
  imports Complex_Main "HOL-Library.Sublist"
begin

section \<open>The clip editor of the create page\<close>

text \<open>
  A shallow embedding of \<^verbatim>\<open>frontend/src/app/create/page.tsx\<close> (the component
  \<^verbatim>\<open>CreatePage\<close> and the modal \<^verbatim>\<open>CaptionsModal\<close>) and of the response types of
  \<^verbatim>\<open>services/apiClient.ts\<close>.

  Conventions of the embedding.
  \<^item> A JavaScript \<^verbatim>\<open>number\<close> that holds a time, a pixel position or a width is a
    \<^typ>\<open>real\<close>: the arithmetic of the handlers is exact here, rounding of doubles and
    the values \<^verbatim>\<open>NaN\<close> and \<^verbatim>\<open>Infinity\<close> are outside the model. The only division
    of the drag handler is by the width of the timeline element, so every statement about
    a pointer move is made for a width other than zero.
  \<^item> An optional or possibly missing property (\<^verbatim>\<open>x?: T\<close>, a field of an \<^verbatim>\<open>any\<close>)
    is an \<^typ>\<open>'a option\<close>; \<^verbatim>\<open>a || b\<close> takes \<open>b\<close> when \<open>a\<close> is missing or falsy.
  \<^item> The component state (the \<^verbatim>\<open>useState\<close> cells that the handlers below read or
    write; the cells of the upload modal are left out) is one record that each handler
    takes and returns. A handler bound in the markup runs on the state of the latest
    render; the listener that a press registers on the document keeps the variables of
    the render of the press. The result of an awaited call is an argument of the handler:
    \<open>Inl\<close> what was thrown, \<open>Inr\<close> the response.
  \<^item> The fields \<^verbatim>\<open>id\<close> and \<^verbatim>\<open>text\<close> carry a suffix, as both are names taken in
    Isabelle. The display strings \<^verbatim>\<open>startTime\<close>, \<^verbatim>\<open>endTime\<close>, \<^verbatim>\<open>duration\<close> and the
    \<^verbatim>\<open>thumbnail\<close> of a clip are not part of the model.
\<close>

subsection \<open>Data\<close>

datatype Position = Top | Center | Bottom

datatype Animation = AnimNone | Pop | Slide | Typewriter

record CaptionSegment =
  start_seg :: real
  end_seg :: real
  text_seg :: string
  confidence :: "real option"

record CaptionStyle =
  fontSize :: real
  fontColor :: string
  backgroundColor :: string
  backgroundOpacity :: real
  outlineColor :: string
  outlineWidth :: real
  position :: Position
  animation :: Animation

text \<open>A record among the elements of \<^verbatim>\<open>results\<close> or \<^verbatim>\<open>finalized_clips\<close>, both
  typed \<^verbatim>\<open>any[]\<close> in the source. An element of such an array is a record or
  \<^verbatim>\<open>null\<close>, which is \<open>None\<close> in the lists below.\<close>

record RawClip =
  raw_id :: "string option"
  raw_clip_id :: "string option"
  raw_title :: "string option"
  raw_start_time :: "real option"
  raw_end_time :: "real option"
  raw_url_path :: "string option"
  raw_path :: "string option"
  raw_text :: "string option"
  raw_caption :: "string option"
  raw_hashtags :: "string list option"
  raw_captions :: "CaptionSegment list option"
  raw_captionStyle :: "CaptionStyle option"

record Clip =
  id_clip :: string
  title :: string
  path :: string
  start_time :: real
  end_time :: real
  text_clip :: string
  caption :: string
  hashtags :: "string list"
  captions :: "CaptionSegment list option"
  captionStyle :: "CaptionStyle option"

record EditingClip = Clip +
  originalStart :: real
  originalEnd :: real
  editedStart :: real
  editedEnd :: real
  originalPath :: "string option"

datatype AppState = Input | Processing | Editing | Complete | Error

datatype DragType = DragNone | DragStart | DragEnd | DragMove

record JobStatusResponse =
  status_job :: string
  message_job :: string
  results :: "RawClip option list option"

record FinalizeResponse =
  status_fin :: string
  message_fin :: "string option"
  finalized_clips :: "RawClip option list"

record FormData =
  url :: string
  prompt :: string

record ProcessResponse =
  job_id :: string
  status_proc :: string
  message_proc :: string

text \<open>What a \<^verbatim>\<open>catch\<close> receives: an \<^verbatim>\<open>Error\<close> with its message, or any other value.\<close>

datatype Thrown = ErrorObj string | OtherThrown

text \<open>The \<^verbatim>\<open>useState\<close> cells of \<^verbatim>\<open>CreatePage\<close>.\<close>

record CreatePage =
  appState :: AppState
  formData :: FormData
  jobId :: string
  jobStatus :: "JobStatusResponse option"
  error :: string
  isSubmitting :: bool
  currentClipIndex :: nat
  editingClips :: "EditingClip list"
  finalizedClips :: "RawClip option list"
  currentTime :: real
  videoDuration :: real
  isDragging :: "DragType \<times> int"
  dragStartX :: real
  dragStartValue :: real
  isPreventingTimelineClick :: bool
  captionsModalOpen :: bool
  selectedClipForCaptions :: "EditingClip option"
  isFinalizingClips :: bool

definition defaultCaptionStyle :: CaptionStyle where
  "defaultCaptionStyle =
     \<lparr>fontSize = 24, fontColor = ''#FFFFFF'', backgroundColor = ''#000000'',
      backgroundOpacity = 8 / 10, outlineColor = ''#000000'', outlineWidth = 2,
      position = Bottom, animation = Typewriter\<rparr>"

text \<open>The initial values of the cells (the arguments of \<^verbatim>\<open>useState\<close>).\<close>

definition initialPage :: CreatePage where
  "initialPage =
     \<lparr>appState = Input, formData = \<lparr>url = '''', prompt = ''''\<rparr>, jobId = '''',
      jobStatus = None, error = '''', isSubmitting = False, currentClipIndex = 0, editingClips = [], finalizedClips = [],
      currentTime = 0, videoDuration = 0, isDragging = (DragNone, - 1),
      dragStartX = 0, dragStartValue = 0, isPreventingTimelineClick = False,
      captionsModalOpen = False, selectedClipForCaptions = None,
      isFinalizingClips = False\<rparr>"

subsection \<open>Submission and reset\<close>

text \<open>\<^verbatim>\<open>s.trim()\<close> for the six white space characters of ASCII. The source also
  strips U+00A0 and the other white space of Unicode, which a string of bytes does not
  single out; the form of the examples holds ASCII only.\<close>

definition isWhiteSpace :: "char \<Rightarrow> bool" where
  "isWhiteSpace c = (c \<in> set [CHR '' '', CHR 0x09, CHR 0x0A, CHR 0x0B, CHR 0x0C, CHR 0x0D])"

definition trim :: "string \<Rightarrow> string" where
  "trim s = rev (dropWhile isWhiteSpace (rev (dropWhile isWhiteSpace s)))"

definition isFormValid :: "CreatePage \<Rightarrow> bool" where
  "isFormValid st = (trim (url (formData st)) \<noteq> '''' \<and> trim (prompt (formData st)) \<noteq> '''')"

text \<open>The two \<^verbatim>\<open>onChange\<close> handlers of the form.\<close>

definition changeUrl :: "string \<Rightarrow> CreatePage \<Rightarrow> CreatePage" where
  "changeUrl v st = st\<lparr>formData := (formData st)\<lparr>url := v\<rparr>\<rparr>"

definition changePrompt :: "string \<Rightarrow> CreatePage \<Rightarrow> CreatePage" where
  "changePrompt v st = st\<lparr>formData := (formData st)\<lparr>prompt := v\<rparr>\<rparr>"

text \<open>A whole run of \<^verbatim>\<open>handleSubmit\<close>; the argument is the outcome of
  \<^verbatim>\<open>startProcessing\<close>.\<close>

definition handleSubmit :: "Thrown + ProcessResponse \<Rightarrow> CreatePage \<Rightarrow> CreatePage" where
  "handleSubmit outcome st =
     (if \<not> isFormValid st \<or> isSubmitting st then st
      else
        (let st1 = st\<lparr>isSubmitting := True, error := ''''\<rparr>;
             st2 =
               (case outcome of
                  Inr response \<Rightarrow>
                    st1\<lparr>jobId := job_id response,
                        appState := Processing,
                        jobStatus := Some \<lparr>status_job = status_proc response,
                                           message_job = message_proc response,
                                           results = None\<rparr>\<rparr>
                | Inl err \<Rightarrow>
                    st1\<lparr>error := (case err of ErrorObj m \<Rightarrow> m
                                           | OtherThrown \<Rightarrow> ''An error occurred''),
                        appState := Error\<rparr>)
         in st2\<lparr>isSubmitting := False\<rparr>))"

definition handleReset :: "CreatePage \<Rightarrow> CreatePage" where
  "handleReset st =
     st\<lparr>appState := Input, formData := \<lparr>url = '''', prompt = ''''\<rparr>, jobId := '''',
        jobStatus := None, error := '''', currentClipIndex := 0, editingClips := [],
        finalizedClips := [], currentTime := 0, videoDuration := 0\<rparr>"

subsection \<open>Dragging on the timeline\<close>

text \<open>\<^verbatim>\<open>Math.max(a, ...xs)\<close> and \<^verbatim>\<open>Math.min(a, ...xs)\<close>.\<close>

definition math_max :: "real \<Rightarrow> real list \<Rightarrow> real" where
  "math_max a xs = fold max xs a"

definition math_min :: "real \<Rightarrow> real list \<Rightarrow> real" where
  "math_min a xs = fold min xs a"

text \<open>\<^verbatim>\<open>editingClips.filter((_, i) => i !== clipIndex)\<close>.\<close>

definition otherClips :: "EditingClip list \<Rightarrow> nat \<Rightarrow> EditingClip list" where
  "otherClips clips clipIndex =
     map snd (filter (\<lambda>(i, c). i \<noteq> clipIndex) (enumerate 0 clips))"

definition minBound :: "EditingClip list \<Rightarrow> nat \<Rightarrow> real" where
  "minBound clips clipIndex =
     math_max 0 (filter (\<lambda>e. e \<le> editedStart (clips ! clipIndex))
                        (map editedEnd (otherClips clips clipIndex)))"

definition maxBound :: "real \<Rightarrow> EditingClip list \<Rightarrow> nat \<Rightarrow> real" where
  "maxBound duration clips clipIndex =
     math_min duration (filter (\<lambda>s. s \<ge> editedEnd (clips ! clipIndex))
                               (map editedStart (otherClips clips clipIndex)))"

text \<open>
  A \<^verbatim>\<open>mousemove\<close> event as the handler reads it: the pointer position and the width
  of the bounding rectangle of the timeline element, \<open>None\<close> when
  \<^verbatim>\<open>timelineRef.current\<close> is null.
\<close>

record MouseMove =
  clientX :: real
  timelineWidth :: "real option"

text \<open>
  The variables that the closure \<^verbatim>\<open>handleMouseMove\<close> captures. The closure is built
  inside \<^verbatim>\<open>handleTimelineMouseDown\<close> and registered on the document once; it reads
  \<^verbatim>\<open>dragStartX\<close>, \<^verbatim>\<open>dragStartValue\<close>, \<^verbatim>\<open>videoDuration\<close> and \<^verbatim>\<open>editingClips\<close>
  as the constants of the render in which the press happened, and no later
  \<^verbatim>\<open>setState\<close> changes them.
\<close>

record DragClosure =
  dragType_c :: DragType
  clipIndex_c :: nat
  dragStartX_c :: real
  dragStartValue_c :: real
  videoDuration_c :: real
  editingClips_c :: "EditingClip list"

text \<open>
  The list that \<^verbatim>\<open>handleMouseMove\<close> hands to \<^verbatim>\<open>setEditingClips\<close>. The arithmetic
  is exact. In the source \<^verbatim>\<open>Math.min\<close> and \<^verbatim>\<open>Math.max\<close> return one of their
  arguments, while \<^verbatim>\<open>clip.editedEnd - 1\<close>, \<^verbatim>\<open>clip.editedStart + 1\<close>,
  \<^verbatim>\<open>maxBound - clipDuration\<close> and \<^verbatim>\<open>newStart + clipDuration\<close> are rounded to
  doubles; what is proved of \<open>dragClips\<close> below says so where a rounded value could
  matter.
\<close>

definition dragClips :: "DragType \<Rightarrow> nat \<Rightarrow> real \<Rightarrow> real \<Rightarrow> EditingClip list \<Rightarrow> EditingClip list" where
  "dragClips dragType clipIndex duration requested clips =
     (let clip = clips ! clipIndex;
          lo = minBound clips clipIndex;
          hi = maxBound duration clips clipIndex
      in case dragType of
           DragStart \<Rightarrow>
             clips[clipIndex := clip\<lparr>editedStart := max lo (min (editedEnd clip - 1) requested)\<rparr>]
         | DragEnd \<Rightarrow>
             clips[clipIndex := clip\<lparr>editedEnd := min hi (max (editedStart clip + 1) requested)\<rparr>]
         | DragMove \<Rightarrow>
             (let clipDuration = editedEnd clip - editedStart clip;
                  newStart = max lo (min (hi - clipDuration) requested)
              in clips[clipIndex := clip\<lparr>editedStart := newStart,
                                           editedEnd := newStart + clipDuration\<rparr>])
         | DragNone \<Rightarrow> clips)"

definition handleMouseMove :: "DragClosure \<Rightarrow> MouseMove \<Rightarrow> CreatePage \<Rightarrow> CreatePage" where
  "handleMouseMove cl e st =
     (case timelineWidth e of
        None \<Rightarrow> st
      | Some width \<Rightarrow>
          (let deltaX = clientX e - dragStartX_c cl;
               deltaTime = (deltaX / width) * videoDuration_c cl
           in if \<not> clipIndex_c cl < length (editingClips_c cl) then st
              else st\<lparr>editingClips :=
                        dragClips (dragType_c cl) (clipIndex_c cl) (videoDuration_c cl)
                          (dragStartValue_c cl + deltaTime) (editingClips_c cl)\<rparr>))"

definition handleMouseUp :: "CreatePage \<Rightarrow> CreatePage" where
  "handleMouseUp st = st\<lparr>isDragging := (DragNone, - 1)\<rparr>"

text \<open>
  \<^verbatim>\<open>handleTimelineMouseDown\<close>: the new state and, when a drag starts, the closure that
  is registered for \<^verbatim>\<open>mousemove\<close>. The closure takes its variables from \<open>st\<close>, the
  state of the render that built the handler, not from the updated state.
\<close>

definition handleTimelineMouseDown ::
  "CreatePage \<Rightarrow> bool \<Rightarrow> real \<Rightarrow> DragType \<Rightarrow> nat \<Rightarrow> CreatePage \<times> DragClosure option" where
  "handleTimelineMouseDown st timelineMounted pressX dragType clipIndex =
     (if \<not> timelineMounted \<or> clipIndex \<noteq> currentClipIndex st then (st, None)
      else
        (st\<lparr>isDragging := (dragType, int clipIndex),
            dragStartX := pressX,
            isPreventingTimelineClick := True,
            dragStartValue :=
              (if clipIndex < length (editingClips st)
               then (case dragType of
                       DragStart \<Rightarrow> editedStart (editingClips st ! clipIndex)
                     | DragEnd \<Rightarrow> editedEnd (editingClips st ! clipIndex)
                     | _ \<Rightarrow> editedStart (editingClips st ! clipIndex))
               else dragStartValue st)\<rparr>,
         Some \<lparr>dragType_c = dragType, clipIndex_c = clipIndex,
               dragStartX_c = dragStartX st, dragStartValue_c = dragStartValue st,
               videoDuration_c = videoDuration st, editingClips_c = editingClips st\<rparr>))"

text \<open>The timer of 150 ms that \<^verbatim>\<open>handleMouseUp\<close> starts, when it fires.\<close>

definition allowTimelineClick :: "CreatePage \<Rightarrow> CreatePage" where
  "allowTimelineClick st = st\<lparr>isPreventingTimelineClick := False\<rparr>"

text \<open>
  A gesture: a press of the given kind on the clip with the given index at a pointer
  position, the \<^verbatim>\<open>mousemove\<close> events that follow, and the release.
\<close>

record Gesture =
  mounted_g :: bool
  pressX_g :: real
  dragType_g :: DragType
  clipIndex_g :: nat
  moves_g :: "MouseMove list"

definition runGesture :: "CreatePage \<Rightarrow> Gesture \<Rightarrow> CreatePage" where
  "runGesture st g =
     (case handleTimelineMouseDown st (mounted_g g) (pressX_g g) (dragType_g g) (clipIndex_g g) of
        (st', None) \<Rightarrow> st'
      | (st', Some cl) \<Rightarrow> handleMouseUp (fold (handleMouseMove cl) (moves_g g) st'))"

definition runGestures :: "CreatePage \<Rightarrow> Gesture list \<Rightarrow> CreatePage" where
  "runGestures st gs = fold (\<lambda>g s. runGesture s g) gs st"

text \<open>The pairwise condition of the clip collection, and the bounds of one clip.\<close>

definition noOverlap :: "EditingClip list \<Rightarrow> bool" where
  "noOverlap clips =
     (\<forall>i < length clips. \<forall>j < length clips. i \<noteq> j \<longrightarrow>
        editedEnd (clips ! i) \<le> editedStart (clips ! j) \<or>
        editedEnd (clips ! j) \<le> editedStart (clips ! i))"

definition withinTimeline :: "real \<Rightarrow> EditingClip list \<Rightarrow> bool" where
  "withinTimeline duration clips =
     (\<forall>c \<in> set clips. 0 \<le> editedStart c \<and> editedStart c < editedEnd c \<and> editedEnd c \<le> duration)"

subsection \<open>Ingest: from the job status to the editing state\<close>

text \<open>\<^verbatim>\<open>a || b\<close> on a string that may be missing (the empty string is falsy) and on a
  number that may be missing (zero is falsy).\<close>

definition orString :: "string option \<Rightarrow> string \<Rightarrow> string" where
  "orString a b = (case a of None \<Rightarrow> b | Some s \<Rightarrow> if s = '''' then b else s)"

definition orNumber :: "real option \<Rightarrow> real \<Rightarrow> real" where
  "orNumber a b = (case a of None \<Rightarrow> b | Some x \<Rightarrow> if x = 0 then b else x)"

text \<open>
  \<^verbatim>\<open>processClips\<close>. An element of \<^verbatim>\<open>results\<close> (an \<^verbatim>\<open>any[]\<close>) is a record or
  \<^verbatim>\<open>null\<close>, here \<open>None\<close>; reading \<^verbatim>\<open>clip.id\<close> of \<^verbatim>\<open>null\<close> throws a
  \<^verbatim>\<open>TypeError\<close>, which ends the \<^verbatim>\<open>map\<close>. The message below is the wording of V8;
  other engines word it differently and no statement depends on it. The first argument
  supplies \<^verbatim>\<open>String(Math.random())\<close> for the record at each index. \<open>raw_id\<close> and
  \<open>raw_clip_id\<close> hold the property as \<^verbatim>\<open>String\<close> renders it; a numeric id 0 is falsy
  in the source and has to be given as a missing id here (its title then reads
  \<^verbatim>\<open>Clip undefined\<close> instead of \<^verbatim>\<open>Clip 0\<close>).
\<close>

definition nullReadMessage :: string where
  "nullReadMessage =
     ''Cannot read properties of null (reading '' @ [CHR 0x27] @ ''id'' @ [CHR 0x27] @ '')''"

definition processClip :: "string \<Rightarrow> RawClip \<Rightarrow> Clip" where
  "processClip rnd clip =
     \<lparr>id_clip = orString (raw_id clip) (orString (raw_clip_id clip) rnd),
      title = orString (raw_title clip)
                (''Clip '' @ (case raw_id clip of None \<Rightarrow> ''undefined'' | Some i \<Rightarrow> i)),
      path = orString (raw_url_path clip) (orString (raw_path clip) ''''),
      start_time = orNumber (raw_start_time clip) 0,
      end_time = orNumber (raw_end_time clip) 0,
      text_clip = orString (raw_text clip) '''',
      caption = orString (raw_caption clip) '''',
      hashtags = (case raw_hashtags clip of None \<Rightarrow> [] | Some hs \<Rightarrow> hs),
      captions = Some (case raw_captions clip of None \<Rightarrow> [] | Some cs \<Rightarrow> cs),
      captionStyle = Some (case raw_captionStyle clip of None \<Rightarrow> defaultCaptionStyle | Some cs \<Rightarrow> cs)\<rparr>"

text \<open>The \<^verbatim>\<open>map\<close> of \<^verbatim>\<open>processClips\<close> from the index \<open>i\<close> on.\<close>

fun processFrom :: "(nat \<Rightarrow> string) \<Rightarrow> nat \<Rightarrow> RawClip option list \<Rightarrow> Thrown + Clip list" where
  "processFrom rnd i [] = Inr []"
| "processFrom rnd i (None # rs) = Inl (ErrorObj nullReadMessage)"
| "processFrom rnd i (Some clip # rs) =
     (case processFrom rnd (Suc i) rs of
        Inl err \<Rightarrow> Inl err
      | Inr clips \<Rightarrow> Inr (processClip (rnd i) clip # clips))"

definition processClips :: "(nat \<Rightarrow> string) \<Rightarrow> RawClip option list \<Rightarrow> Thrown + Clip list" where
  "processClips rnd rs = (if rs = [] then Inr [] else processFrom rnd 0 rs)"

definition toEditingClip :: "Clip \<Rightarrow> EditingClip" where
  "toEditingClip clip =
     \<lparr>id_clip = id_clip clip, title = title clip, path = path clip,
      start_time = start_time clip, end_time = end_time clip,
      text_clip = text_clip clip, caption = caption clip, hashtags = hashtags clip,
      captions = captions clip, captionStyle = captionStyle clip,
      originalStart = start_time clip, originalEnd = end_time clip,
      editedStart = start_time clip, editedEnd = end_time clip,
      originalPath = None\<rparr>"

text \<open>The \<^verbatim>\<open>catch\<close> block of \<^verbatim>\<open>pollStatus\<close>.\<close>

definition pollFailed :: "Thrown \<Rightarrow> CreatePage \<Rightarrow> CreatePage" where
  "pollFailed err st =
     st\<lparr>error := (case err of ErrorObj m \<Rightarrow> m | OtherThrown \<Rightarrow> ''Failed to get job status''),
        appState := Error\<rparr>"

text \<open>
  The handler of one answer of \<^verbatim>\<open>getJobStatus\<close> inside the polling effect. The call
  of \<^verbatim>\<open>processClips\<close> stands inside the \<^verbatim>\<open>try\<close>, after \<^verbatim>\<open>setJobStatus\<close>: when it
  throws, the \<^verbatim>\<open>catch\<close> block runs and no clips are stored.
\<close>

definition pollStatus :: "(nat \<Rightarrow> string) \<Rightarrow> Thrown + JobStatusResponse \<Rightarrow> CreatePage \<Rightarrow> CreatePage" where
  "pollStatus rnd outcome st =
     (case outcome of
        Inr status \<Rightarrow>
          (let st1 = st\<lparr>jobStatus := Some status\<rparr>
           in if status_job status = ''complete''
              then (case processClips rnd (case results status of None \<Rightarrow> [] | Some rs \<Rightarrow> rs) of
                      Inr clips \<Rightarrow>
                        st1\<lparr>editingClips := map toEditingClip clips, appState := Editing\<rparr>
                    | Inl err \<Rightarrow> pollFailed err st1)
              else if status_job status = ''failed''
              then st1\<lparr>error := message_job status, appState := Error\<rparr>
              else st1)
      | Inl err \<Rightarrow> pollFailed err st)"

text \<open>
  \<^verbatim>\<open>onLoadedMetadata\<close> of the preview video. The argument is the duration of the
  loaded video, a property of the event target that the handler never reads.
\<close>

definition onLoadedMetadata :: "real \<Rightarrow> CreatePage \<Rightarrow> CreatePage" where
  "onLoadedMetadata loadedDuration st =
     (let st1 = st\<lparr>videoDuration := 120\<rparr>
      in if currentClipIndex st < length (editingClips st)
         then st1\<lparr>currentTime := editedStart (editingClips st ! currentClipIndex st)\<rparr>
         else st1)"

text \<open>
  The box of one clip on the timeline, as the render computes it: \<^verbatim>\<open>left\<close> and
  \<^verbatim>\<open>width\<close> in percent of the timeline, for a timeline duration other than zero
  (the source divides by it). \<open>None\<close> stands for the render of an empty collection,
  which draws no box.
\<close>

definition clipBox :: "CreatePage \<Rightarrow> EditingClip \<Rightarrow> (real \<times> real) option" where
  "clipBox st clip =
     (case map editedStart (editingClips st) of
        [] \<Rightarrow> None
      | s # ss \<Rightarrow>
          (let minStart = math_min s ss;
               normalizedStart = editedStart clip - minStart;
               normalizedDuration = editedEnd clip - editedStart clip
           in Some ((normalizedStart / videoDuration st) * 100,
                    (normalizedDuration / videoDuration st) * 100)))"

subsection \<open>The polling effect\<close>

text \<open>
  The effect \<^verbatim>\<open>useEffect(..., [appState, jobId, isFinalizingClips])\<close>. A \<open>Poller\<close>
  records what the effect has done: the period in milliseconds of the interval that is
  installed, if any, and the number of calls of \<^verbatim>\<open>pollStatus\<close> issued so far. The
  passing of time is an event, \<open>intervalTick\<close>, one per period of the installed interval.
\<close>

record Poller =
  interval :: "nat option"
  issued :: nat

definition pollingEffect :: "CreatePage \<Rightarrow> Poller \<Rightarrow> Poller" where
  "pollingEffect st p =
     (if appState st \<noteq> Processing \<or> jobId st = '''' \<or> isFinalizingClips st then p
      else p\<lparr>issued := issued p + 1, interval := Some 3000\<rparr>)"

definition clearInterval :: "Poller \<Rightarrow> Poller" where
  "clearInterval p = p\<lparr>interval := None\<rparr>"

text \<open>A render is committed: when a dependency changed, the cleanup of the previous
  run of the effect and then the effect itself.\<close>

definition commitRender :: "CreatePage \<Rightarrow> CreatePage \<Rightarrow> Poller \<Rightarrow> Poller" where
  "commitRender old new p =
     (if appState old = appState new \<and> jobId old = jobId new \<and>
         isFinalizingClips old = isFinalizingClips new
      then p
      else pollingEffect new (clearInterval p))"

definition intervalTick :: "Poller \<Rightarrow> Poller" where
  "intervalTick p = (case interval p of None \<Rightarrow> p | Some ms \<Rightarrow> p\<lparr>issued := issued p + 1\<rparr>)"

subsection \<open>Finalize\<close>

text \<open>\<^verbatim>\<open>s.includes(t)\<close>.\<close>

fun includes_str :: "string \<Rightarrow> string \<Rightarrow> bool" where
  "includes_str [] t = (t = [])"
| "includes_str (c # cs) t = (prefix t (c # cs) \<or> includes_str cs t)"

text \<open>
  \<^verbatim>\<open>apiService.finalizeClips\<close>. The argument is the outcome of \<^verbatim>\<open>fetch\<close>: what it
  threw, or a response with its \<^verbatim>\<open>ok\<close> flag, its status as the template renders it,
  its status text and the outcome of \<^verbatim>\<open>response.json()\<close>.
\<close>

record FetchResponse =
  ok :: bool
  status_http :: string
  statusText :: string
  json :: "Thrown + FinalizeResponse"

definition finalizeClips :: "Thrown + FetchResponse \<Rightarrow> Thrown + FinalizeResponse" where
  "finalizeClips fetched =
     (case fetched of
        Inl err \<Rightarrow> Inl err
      | Inr response \<Rightarrow>
          if \<not> ok response
          then Inl (ErrorObj (''API Error: '' @ status_http response @ '' '' @ statusText response))
          else json response)"

text \<open>One element of \<^verbatim>\<open>formattedEditingClips\<close>: the listed fields of the clip (all but
  \<^verbatim>\<open>originalPath\<close>) and the flag \<^verbatim>\<open>hasCaptionedVersion\<close>.\<close>

definition formatClip :: "EditingClip \<Rightarrow> EditingClip \<times> bool" where
  "formatClip clip =
     (clip\<lparr>originalPath := None\<rparr>,
      (case captions clip of None \<Rightarrow> False | Some cs \<Rightarrow> length cs > 0))"

record FinalizeRequest =
  jobId_req :: string
  edited_clips :: "(EditingClip \<times> bool) list"

text \<open>\<^verbatim>\<open>handleFinalize\<close> up to the \<^verbatim>\<open>await\<close>: the new state and the request sent, if any.\<close>

definition handleFinalize_start :: "CreatePage \<Rightarrow> CreatePage \<times> FinalizeRequest option" where
  "handleFinalize_start st =
     (if jobId st = '''' then (st, None)
      else if isFinalizingClips st then (st, None)
      else
        (st\<lparr>isFinalizingClips := True,
            appState := Processing,
            jobStatus := Some \<lparr>status_job = ''processing'',
                               message_job = ''Finalizing clips with your edits...'',
                               results = None\<rparr>\<rparr>,
         Some \<lparr>jobId_req = jobId st, edited_clips = map formatClip (editingClips st)\<rparr>))"

text \<open>The \<^verbatim>\<open>catch\<close> block of \<^verbatim>\<open>handleFinalize\<close>.\<close>

definition finalizeFailed :: "Thrown \<Rightarrow> CreatePage \<Rightarrow> CreatePage" where
  "finalizeFailed err st =
     (let msg =
        (case err of
           ErrorObj m \<Rightarrow>
             if includes_str m ''Failed to fetch''
             then ''Network error during finalization. Please check your connection and try again.''
             else ''Finalization failed: '' @ m
         | OtherThrown \<Rightarrow> ''Finalization failed: Unknown error'')
      in st\<lparr>error := msg, appState := Error\<rparr>)"

text \<open>\<^verbatim>\<open>handleFinalize\<close> from the moment the awaited \<^verbatim>\<open>finalizeClips\<close> settles,
  the \<^verbatim>\<open>finally\<close> block included.\<close>

definition handleFinalize_settle :: "Thrown + FinalizeResponse \<Rightarrow> CreatePage \<Rightarrow> CreatePage" where
  "handleFinalize_settle outcome st =
     (let st1 =
        (case outcome of
           Inr finalizeResponse \<Rightarrow>
             if status_fin finalizeResponse = ''success''
             then st\<lparr>finalizedClips := finalized_clips finalizeResponse,
                     appState := Complete,
                     jobStatus := Some \<lparr>status_job = ''complete'',
                                        message_job = ''All clips finalized successfully!'',
                                        results = Some (finalized_clips finalizeResponse)\<rparr>\<rparr>
             else finalizeFailed
                    (ErrorObj (orString (message_fin finalizeResponse) ''Failed to finalize clips'')) st
         | Inl err \<Rightarrow> finalizeFailed err st)
      in st1\<lparr>isFinalizingClips := False\<rparr>)"

text \<open>A whole run of \<^verbatim>\<open>handleFinalize\<close> with nothing in between.\<close>

definition handleFinalize :: "Thrown + FinalizeResponse \<Rightarrow> CreatePage \<Rightarrow> CreatePage" where
  "handleFinalize outcome st =
     (case handleFinalize_start st of
        (st', None) \<Rightarrow> st'
      | (st', Some request) \<Rightarrow> handleFinalize_settle outcome st')"

subsection \<open>Captions\<close>

definition handleOpenCaptions :: "EditingClip \<Rightarrow> CreatePage \<Rightarrow> CreatePage" where
  "handleOpenCaptions clip st = st\<lparr>selectedClipForCaptions := Some clip, captionsModalOpen := True\<rparr>"

definition handleCaptionsApplied ::
  "string \<Rightarrow> CaptionSegment list \<Rightarrow> CaptionStyle \<Rightarrow> string option \<Rightarrow> CreatePage \<Rightarrow> CreatePage" where
  "handleCaptionsApplied clipId caps style captionedVideoUrl st =
     st\<lparr>editingClips :=
          map (\<lambda>clip.
                 if id_clip clip = clipId
                 then clip\<lparr>captions := Some caps,
                           captionStyle := Some style,
                           path := orString captionedVideoUrl (path clip),
                           originalPath := Some (orString (originalPath clip) (path clip))\<rparr>
                 else clip)
              (editingClips st)\<rparr>"

text \<open>The \<^verbatim>\<open>onClose\<close> that the page passes to the modal.\<close>

definition closeCaptions :: "CreatePage \<Rightarrow> CreatePage" where
  "closeCaptions st = st\<lparr>captionsModalOpen := False, selectedClipForCaptions := None\<rparr>"

text \<open>The cells of \<^verbatim>\<open>CaptionsModal\<close> that \<^verbatim>\<open>handleApplyCaptions\<close> reads.\<close>

record CaptionsModal =
  captions_m :: "CaptionSegment list"
  captionStyle_m :: CaptionStyle
  isApplying :: bool

text \<open>
  \<^verbatim>\<open>handleApplyCaptions\<close> of the modal opened for \<open>clip\<close>, from the moment the awaited
  \<^verbatim>\<open>applyCaptions\<close> settles: \<open>Inr\<close> carries the \<^verbatim>\<open>previewUrl\<close> of the response.
\<close>

definition handleApplyCaptions ::
  "CaptionsModal \<Rightarrow> EditingClip \<Rightarrow> Thrown + string option \<Rightarrow> CreatePage \<Rightarrow> CreatePage \<times> CaptionsModal" where
  "handleApplyCaptions m clip outcome st =
     (case outcome of
        Inr previewUrl \<Rightarrow>
          (closeCaptions
             (handleCaptionsApplied (id_clip clip) (captions_m m) (captionStyle_m m) previewUrl st),
           m\<lparr>isApplying := False\<rparr>)
      | Inl err \<Rightarrow>
          (closeCaptions
             (handleCaptionsApplied (id_clip clip) (captions_m m) (captionStyle_m m) None st),
           m\<lparr>isApplying := False\<rparr>))"

subsection \<open>Conditions on a clip collection and on gestures\<close>

text \<open>Every \<^verbatim>\<open>mousemove\<close> of the gestures finds a timeline element of a width other
  than zero, or none at all.\<close>

definition finiteGestures :: "Gesture list \<Rightarrow> bool" where
  "finiteGestures gs = (\<forall>g \<in> set gs. \<forall>e \<in> set (moves_g g). timelineWidth e \<noteq> Some 0)"

text \<open>Clip \<open>j\<close> is the nearest clip that starts at or after the end of clip \<open>k\<close>, and
  the nearest clip that ends at or before the start of clip \<open>k\<close>.\<close>

definition nextNeighbour :: "EditingClip list \<Rightarrow> nat \<Rightarrow> nat \<Rightarrow> bool" where
  "nextNeighbour clips k j =
     (j < length clips \<and> j \<noteq> k \<and> editedEnd (clips ! k) \<le> editedStart (clips ! j) \<and>
      (\<forall>i < length clips. i \<noteq> k \<and> editedEnd (clips ! k) \<le> editedStart (clips ! i) \<longrightarrow>
         editedStart (clips ! j) \<le> editedStart (clips ! i)))"

definition prevNeighbour :: "EditingClip list \<Rightarrow> nat \<Rightarrow> nat \<Rightarrow> bool" where
  "prevNeighbour clips k j =
     (j < length clips \<and> j \<noteq> k \<and> editedEnd (clips ! j) \<le> editedStart (clips ! k) \<and>
      (\<forall>i < length clips. i \<noteq> k \<and> editedEnd (clips ! i) \<le> editedStart (clips ! k) \<longrightarrow>
         editedEnd (clips ! i) \<le> editedEnd (clips ! j)))"

text \<open>What \<^verbatim>\<open>processClips\<close> returns for a list of records, none of them \<^verbatim>\<open>null\<close>.\<close>

definition processed :: "(nat \<Rightarrow> string) \<Rightarrow> RawClip list \<Rightarrow> Clip list" where
  "processed rnd rs = map (\<lambda>(i, clip). processClip (rnd i) clip) (enumerate 0 rs)"

text \<open>The bounds of an upstream record as ingest reads them.\<close>

definition rawWithin :: "real \<Rightarrow> RawClip \<Rightarrow> bool" where
  "rawWithin duration r =
     (0 \<le> orNumber (raw_start_time r) 0 \<and>
      orNumber (raw_start_time r) 0 < orNumber (raw_end_time r) 0 \<and>
      orNumber (raw_end_time r) 0 \<le> duration)"

subsection \<open>Example inputs\<close>

text \<open>An upstream record \<^verbatim>\<open>{id, start_time, end_time, url_path}\<close>.\<close>

definition rawTimes :: "string \<Rightarrow> real \<Rightarrow> real \<Rightarrow> RawClip" where
  "rawTimes i s e =
     \<lparr>raw_id = Some i, raw_clip_id = None, raw_title = None,
      raw_start_time = Some s, raw_end_time = Some e,
      raw_url_path = Some (''/clips/'' @ i @ ''.mp4''), raw_path = None,
      raw_text = None, raw_caption = None,
      raw_hashtags = None, raw_captions = None, raw_captionStyle = None\<rparr>"

definition completeWith :: "RawClip list \<Rightarrow> Thrown + JobStatusResponse" where
  "completeWith rs =
     Inr \<lparr>status_job = ''complete'', message_job = ''done'', results = Some (map Some rs)\<rparr>"

text \<open>An answer whose list holds a \<^verbatim>\<open>null\<close>, the answer \<^verbatim>\<open>{status: "failed", message: "x"}\<close>,
  and an answer of a job that is still running.\<close>

definition withNull :: JobStatusResponse where
  "withNull =
     \<lparr>status_job = ''complete'', message_job = ''done'',
      results = Some [Some \<lparr>raw_id = Some ''1'', raw_clip_id = None, raw_title = None,
                            raw_start_time = Some 0, raw_end_time = Some 10,
                            raw_url_path = None, raw_path = None, raw_text = None,
                            raw_caption = None, raw_hashtags = None, raw_captions = None,
                            raw_captionStyle = None\<rparr>,
                      None]\<rparr>"

definition failedAnswer :: JobStatusResponse where
  "failedAnswer = \<lparr>status_job = ''failed'', message_job = ''x'', results = None\<rparr>"

definition stillProcessing :: JobStatusResponse where
  "stillProcessing =
     \<lparr>status_job = ''processing'', message_job = ''Analysing'', results = None\<rparr>"

text \<open>The page with the form filled in.\<close>

definition filledPage :: CreatePage where
  "filledPage = changePrompt ''best moments'' (changeUrl ''https://youtu.be/x'' initialPage)"

text \<open>The page once the submission was accepted under the id \<^verbatim>\<open>job-1\<close>, and once it
  was answered with an empty job id.\<close>

definition submittedPage :: CreatePage where
  "submittedPage =
     handleSubmit
       (Inr \<lparr>job_id = ''job-1'', status_proc = ''processing'', message_proc = ''started''\<rparr>)
       filledPage"

definition submittedWithoutId :: CreatePage where
  "submittedWithoutId =
     handleSubmit
       (Inr \<lparr>job_id = '''', status_proc = ''processing'', message_proc = ''started''\<rparr>)
       filledPage"

text \<open>An answer of the finalize endpoint with the status 500.\<close>

definition serverError :: "Thrown + FetchResponse" where
  "serverError =
     Inr \<lparr>ok = False, status_http = ''500'', statusText = ''Internal Server Error'',
          json = Inl (ErrorObj ''Unexpected token'')\<rparr>"

definition ingested :: "RawClip list \<Rightarrow> CreatePage" where
  "ingested rs = pollStatus (\<lambda>i. ''0.5'') (completeWith rs) submittedPage"

text \<open>The page in the editing state with the metadata of a preview of ten minutes loaded.\<close>

definition editingPage :: "RawClip list \<Rightarrow> CreatePage" where
  "editingPage rs = onLoadedMetadata 600 (ingested rs)"

definition scenario :: "RawClip list" where
  "scenario = [rawTimes ''1'' 0 10, rawTimes ''2'' 10 20]"

text \<open>Two clips of a longer video, the second beyond the second minute.\<close>

definition laterClips :: "RawClip list" where
  "laterClips = [rawTimes ''1'' 100 110, rawTimes ''2'' 130 140]"

text \<open>Two clips with a gap of four seconds between them.\<close>

definition gapClips :: "RawClip list" where
  "gapClips = [rawTimes ''1'' 0 10, rawTimes ''2'' 14 20]"

text \<open>A record without \<^verbatim>\<open>end_time\<close>, one with \<^verbatim>\<open>start_time\<close> above \<^verbatim>\<open>end_time\<close>,
  and two that overlap.\<close>

definition malformed :: "RawClip list" where
  "malformed =
     [(rawTimes ''1'' 3 0)\<lparr>raw_end_time := None\<rparr>, rawTimes ''2'' 9 4,
      rawTimes ''3'' 20 30, rawTimes ''4'' 25 35]"

text \<open>A press on the right edge of the first clip at 100 px and a move to 150 px on a
  timeline 1200 px wide: 50 px are 5 s of a timeline of 120 s.\<close>

definition dragRightEdge :: Gesture where
  "dragRightEdge =
     \<lparr>mounted_g = True, pressX_g = 100, dragType_g = DragEnd, clipIndex_g = 0,
      moves_g = [\<lparr>clientX = 150, timelineWidth = Some 1200\<rparr>]\<rparr>"

definition dragRightEdgeFar :: Gesture where
  "dragRightEdgeFar =
     \<lparr>mounted_g = True, pressX_g = 1100, dragType_g = DragEnd, clipIndex_g = 0,
      moves_g = [\<lparr>clientX = 1350, timelineWidth = Some 1200\<rparr>]\<rparr>"

text \<open>A press on the body of the first clip and one move event at the same position.\<close>

definition pressAndHold :: "real \<Rightarrow> Gesture" where
  "pressAndHold x =
     \<lparr>mounted_g = True, pressX_g = x, dragType_g = DragMove, clipIndex_g = 0,
      moves_g = [\<lparr>clientX = x, timelineWidth = Some 1200\<rparr>]\<rparr>"

definition twoFinalized :: FinalizeResponse where
  "twoFinalized =
     \<lparr>status_fin = ''success'', message_fin = Some ''ok'',
      finalized_clips = [Some (rawTimes ''1'' 0 8), Some (rawTimes ''2'' 12 20)]\<rparr>"

definition refused :: FinalizeResponse where
  "refused = \<lparr>status_fin = ''error'', message_fin = Some ''no such job'', finalized_clips = []\<rparr>"

definition editedCaptions :: CaptionsModal where
  "editedCaptions =
     \<lparr>captions_m = [\<lparr>start_seg = 0, end_seg = 5 / 2, text_seg = ''Hello'', confidence = None\<rparr>],
      captionStyle_m = defaultCaptionStyle\<lparr>position := Top\<rparr>,
      isApplying = True\<rparr>"

definition idle :: Poller where
  "idle = \<lparr>interval = None, issued = 0\<rparr>"

text \<open>The pollers after the submission, after the ingest of the scenario, and after the
  start of a finalize call on the editing page.\<close>

definition finalizingPage :: CreatePage where
  "finalizingPage = fst (handleFinalize_start (editingPage scenario))"

definition afterSubmit :: Poller where
  "afterSubmit = commitRender filledPage submittedPage idle"

definition afterIngest :: Poller where
  "afterIngest = commitRender submittedPage (ingested scenario) afterSubmit"

definition afterFinalizeStart :: Poller where
  "afterFinalizeStart = commitRender (editingPage scenario) finalizingPage afterIngest"


section \<open>Properties of the drag handler\<close>

subsection \<open>The bounds taken from the other clips\<close>

lemma math_max_Max: "math_max a xs = Max (insert a (set xs))"
proof -
  have "fold max xs a = Max (set (a # xs))" by (simp only: Max.set_eq_fold)
  then show ?thesis by (simp add: math_max_def)
qed

lemma math_min_Min: "math_min a xs = Min (insert a (set xs))"
proof -
  have "fold min xs a = Min (set (a # xs))" by (simp only: Min.set_eq_fold)
  then show ?thesis by (simp add: math_min_def)
qed

lemma set_otherClips:
  "set (otherClips clips k) = {clips ! j | j. j < length clips \<and> j \<noteq> k}"
  by (auto simp: otherClips_def in_set_enumerate_eq image_iff)

lemma minBound_nonneg: "0 \<le> minBound clips k"
  by (simp add: minBound_def math_max_Max)

lemma minBound_ge:
  "j < length clips \<Longrightarrow> j \<noteq> k \<Longrightarrow> editedEnd (clips ! j) \<le> editedStart (clips ! k)
   \<Longrightarrow> editedEnd (clips ! j) \<le> minBound clips k"
  unfolding minBound_def math_max_Max
  by (rule Max_ge) (auto simp: set_otherClips)

lemma minBound_cases:
  "minBound clips k = 0 \<or> minBound clips k \<le> editedStart (clips ! k)"
proof -
  let ?S = "insert 0 (set (filter (\<lambda>e. e \<le> editedStart (clips ! k))
                            (map editedEnd (otherClips clips k))))"
  have "Max ?S \<in> ?S" by (rule Max_in) auto
  then show ?thesis unfolding minBound_def math_max_Max by auto
qed

lemma maxBound_le_duration: "maxBound d clips k \<le> d"
  by (simp add: maxBound_def math_min_Min)

lemma maxBound_le:
  "j < length clips \<Longrightarrow> j \<noteq> k \<Longrightarrow> editedEnd (clips ! k) \<le> editedStart (clips ! j)
   \<Longrightarrow> maxBound d clips k \<le> editedStart (clips ! j)"
  unfolding maxBound_def math_min_Min
  by (rule Min_le) (auto simp: set_otherClips)

lemma maxBound_cases:
  "maxBound d clips k = d \<or> editedEnd (clips ! k) \<le> maxBound d clips k"
proof -
  let ?S = "insert d (set (filter (\<lambda>s. s \<ge> editedEnd (clips ! k))
                            (map editedStart (otherClips clips k))))"
  have "Min ?S \<in> ?S" by (rule Min_in) auto
  then show ?thesis unfolding maxBound_def math_min_Min by auto
qed

lemma maxBound_next:
  assumes "nextNeighbour clips k j"
  shows "maxBound d clips k = min d (editedStart (clips ! j))"
proof -
  let ?S = "set (filter (\<lambda>s. s \<ge> editedEnd (clips ! k)) (map editedStart (otherClips clips k)))"
  from assms have mem: "editedStart (clips ! j) \<in> ?S"
    by (auto simp: nextNeighbour_def set_otherClips)
  from assms have low: "\<And>s. s \<in> ?S \<Longrightarrow> editedStart (clips ! j) \<le> s"
    by (auto simp: nextNeighbour_def set_otherClips)
  have "Min ?S = editedStart (clips ! j)"
    by (rule Min_eqI) (use mem low in auto)
  moreover have "Min (insert d ?S) = min d (Min ?S)"
    by (rule Min_insert) (use mem in auto)
  ultimately show ?thesis by (simp add: maxBound_def math_min_Min)
qed

lemma minBound_prev:
  assumes "prevNeighbour clips k j"
  shows "minBound clips k = max 0 (editedEnd (clips ! j))"
proof -
  let ?S = "set (filter (\<lambda>e. e \<le> editedStart (clips ! k)) (map editedEnd (otherClips clips k)))"
  from assms have mem: "editedEnd (clips ! j) \<in> ?S"
    by (auto simp: prevNeighbour_def set_otherClips)
  from assms have up: "\<And>s. s \<in> ?S \<Longrightarrow> s \<le> editedEnd (clips ! j)"
    by (auto simp: prevNeighbour_def set_otherClips)
  have "Max ?S = editedEnd (clips ! j)"
    by (rule Max_eqI) (use mem up in auto)
  moreover have "Max (insert 0 ?S) = max 0 (Max ?S)"
    by (rule Max_insert) (use mem in auto)
  ultimately show ?thesis by (simp add: minBound_def math_max_Max)
qed

subsection \<open>One application of the clamp\<close>

lemma dragClips_length: "length (dragClips dt k d v clips) = length clips"
  by (simp add: dragClips_def Let_def split: DragType.split)

lemma dragClips_other: "j \<noteq> k \<Longrightarrow> dragClips dt k d v clips ! j = clips ! j"
  by (simp add: dragClips_def Let_def split: DragType.split)

lemma dragClips_beyond: "\<not> k < length clips \<Longrightarrow> dragClips dt k d v clips = clips"
  by (simp add: dragClips_def Let_def not_less list_update_beyond split: DragType.split)

lemma dragged_within:
  assumes k: "k < length clips"
    and c: "0 \<le> editedStart (clips ! k)" "editedStart (clips ! k) < editedEnd (clips ! k)"
           "editedEnd (clips ! k) \<le> d"
  shows "0 \<le> editedStart (dragClips dt k d v clips ! k) \<and>
         editedStart (dragClips dt k d v clips ! k) < editedEnd (dragClips dt k d v clips ! k) \<and>
         editedEnd (dragClips dt k d v clips ! k) \<le> d"
proof -
  note lo = minBound_cases [of clips k] minBound_nonneg [of clips k]
  note hi = maxBound_cases [of d clips k] maxBound_le_duration [of d clips k]
  show ?thesis
  proof (cases dt)
    case DragNone
    with c k show ?thesis by (simp add: dragClips_def)
  next
    case DragStart
    with c k lo show ?thesis by (auto simp: dragClips_def Let_def)
  next
    case DragEnd
    with c k hi show ?thesis by (auto simp: dragClips_def Let_def)
  next
    case DragMove
    with c k lo hi show ?thesis by (auto simp: dragClips_def Let_def max_def min_def)
  qed
qed

lemma withinTimeline_dragClips:
  assumes ok: "withinTimeline d clips"
  shows "withinTimeline d (dragClips dt k d v clips)"
proof (cases "k < length clips")
  case False
  with ok show ?thesis by (simp add: dragClips_beyond)
next
  case k: True
  let ?new = "dragClips dt k d v clips"
  from ok have each: "\<And>i. i < length clips \<Longrightarrow>
      0 \<le> editedStart (clips ! i) \<and> editedStart (clips ! i) < editedEnd (clips ! i) \<and>
      editedEnd (clips ! i) \<le> d"
    by (simp add: withinTimeline_def)
  show ?thesis unfolding withinTimeline_def
  proof
    fix c assume "c \<in> set ?new"
    then obtain i where i: "i < length clips" and ci: "c = ?new ! i"
      by (auto simp: in_set_conv_nth dragClips_length)
    show "0 \<le> editedStart c \<and> editedStart c < editedEnd c \<and> editedEnd c \<le> d"
    proof (cases "i = k")
      case True
      with dragged_within [OF k, of d dt v] each [OF k] ci show ?thesis by simp
    next
      case False
      with each [OF i] ci show ?thesis by (simp add: dragClips_other)
    qed
  qed
qed

lemma trimEnd_lands:
  assumes k: "k < length clips" and n: "nextNeighbour clips k j"
    and v: "editedStart (clips ! j) \<le> v"
  shows "editedEnd (dragClips DragEnd k d v clips ! k) = min d (editedStart (clips ! j))"
  using k v by (auto simp: dragClips_def Let_def maxBound_next [OF n])

lemma trimStart_lands:
  assumes k: "k < length clips" and n: "prevNeighbour clips k j"
    and v: "v \<le> editedEnd (clips ! j)"
  shows "editedStart (dragClips DragStart k d v clips ! k) = max 0 (editedEnd (clips ! j))"
  using k v by (auto simp: dragClips_def Let_def minBound_prev [OF n])

lemma moveLeft_lands:
  assumes k: "k < length clips" and n: "prevNeighbour clips k j"
    and v: "v \<le> editedEnd (clips ! j)"
  shows "editedStart (dragClips DragMove k d v clips ! k) = max 0 (editedEnd (clips ! j))"
  using k v by (auto simp: dragClips_def Let_def minBound_prev [OF n])

subsection \<open>Gestures\<close>

lemma editingClips_handleMouseMove:
  "editingClips (handleMouseMove cl e st) = editingClips st \<or>
   editingClips (handleMouseMove cl e st) =
     dragClips (dragType_c cl) (clipIndex_c cl) (videoDuration_c cl)
       (dragStartValue_c cl +
          (clientX e - dragStartX_c cl) / the (timelineWidth e) * videoDuration_c cl)
       (editingClips_c cl)"
  by (auto simp: handleMouseMove_def Let_def split: option.split)

lemma videoDuration_handleMouseMove:
  "videoDuration (handleMouseMove cl e st) = videoDuration st"
  by (simp add: handleMouseMove_def Let_def split: option.split)

lemma videoDuration_fold_moves:
  "videoDuration (fold (handleMouseMove cl) ms st) = videoDuration st"
  by (induction ms arbitrary: st) (simp_all add: videoDuration_handleMouseMove)

text \<open>
  Every move of a gesture writes the clamp of the collection of the press, so a
  condition that the clamp keeps holds after any number of moves.
\<close>

lemma fold_moves:
  assumes cl: "P (videoDuration_c cl) (editingClips_c cl)"
    and step: "\<And>dt k v clips. P (videoDuration_c cl) clips \<Longrightarrow>
                 P (videoDuration_c cl) (dragClips dt k (videoDuration_c cl) v clips)"
  shows "P (videoDuration_c cl) (editingClips st) \<Longrightarrow>
         P (videoDuration_c cl) (editingClips (fold (handleMouseMove cl) ms st))"
proof (induction ms arbitrary: st)
  case Nil
  then show ?case by simp
next
  case (Cons e ms)
  from editingClips_handleMouseMove [of cl e st] Cons.prems step [OF cl]
  have "P (videoDuration_c cl) (editingClips (handleMouseMove cl e st))" by auto
  from Cons.IH [OF this] show ?case by simp
qed

lemma runGesture_keeps:
  assumes step: "\<And>dt k d v clips. P d clips \<Longrightarrow> P d (dragClips dt k d v clips)"
    and st: "P (videoDuration st) (editingClips st)"
  shows "P (videoDuration (runGesture st g)) (editingClips (runGesture st g))"
proof (cases "\<not> mounted_g g \<or> clipIndex_g g \<noteq> currentClipIndex st")
  case True
  with st show ?thesis by (auto simp: runGesture_def handleTimelineMouseDown_def)
next
  case False
  define cl where "cl = \<lparr>dragType_c = dragType_g g, clipIndex_c = clipIndex_g g,
               dragStartX_c = dragStartX st, dragStartValue_c = dragStartValue st,
               videoDuration_c = videoDuration st, editingClips_c = editingClips st\<rparr>"
  obtain st' where press: "handleTimelineMouseDown st (mounted_g g) (pressX_g g) (dragType_g g)
        (clipIndex_g g) = (st', Some cl)"
    and same: "editingClips st' = editingClips st" "videoDuration st' = videoDuration st"
    using False by (simp add: handleTimelineMouseDown_def cl_def)
  have vd: "videoDuration_c cl = videoDuration st" and ec: "editingClips_c cl = editingClips st"
    by (simp_all add: cl_def)
  have "P (videoDuration_c cl) (editingClips (fold (handleMouseMove cl) (moves_g g) st'))"
    by (rule fold_moves) (simp_all add: vd ec same st step)
  then show ?thesis
    by (simp add: runGesture_def press handleMouseUp_def vd same videoDuration_fold_moves)
qed

lemma runGestures_keeps:
  assumes step: "\<And>dt k d v clips. P d clips \<Longrightarrow> P d (dragClips dt k d v clips)"
  shows "P (videoDuration st) (editingClips st) \<Longrightarrow>
         P (videoDuration (runGestures st gs)) (editingClips (runGestures st gs))"
  unfolding runGestures_def
proof (induction gs arbitrary: st)
  case Nil
  then show ?case by simp
next
  case (Cons g gs)
  from runGesture_keeps [of P st g, OF step Cons.prems]
  have "P (videoDuration (runGesture st g)) (editingClips (runGesture st g))" .
  from Cons.IH [OF this] show ?case by simp
qed

subsection \<open>Evaluation of the conditions and of the examples\<close>

lemma noOverlap_Nil: "noOverlap []"
  by (simp add: noOverlap_def)

lemma noOverlap_Cons:
  "noOverlap (c # cs) =
     ((\<forall>d \<in> set cs. editedEnd c \<le> editedStart d \<or> editedEnd d \<le> editedStart c) \<and> noOverlap cs)"
  (is "?L = ?R")
proof
  assume L: ?L
  have "\<forall>d \<in> set cs. editedEnd c \<le> editedStart d \<or> editedEnd d \<le> editedStart c"
  proof
    fix d assume "d \<in> set cs"
    then obtain i where "i < length cs" "d = cs ! i" by (auto simp: in_set_conv_nth)
    with L [unfolded noOverlap_def, rule_format, of 0 "Suc i"] show
      "editedEnd c \<le> editedStart d \<or> editedEnd d \<le> editedStart c" by simp
  qed
  moreover have "noOverlap cs" unfolding noOverlap_def
  proof (intro allI impI)
    fix i j assume "i < length cs" "j < length cs" "i \<noteq> j"
    with L [unfolded noOverlap_def, rule_format, of "Suc i" "Suc j"]
    show "editedEnd (cs ! i) \<le> editedStart (cs ! j) \<or> editedEnd (cs ! j) \<le> editedStart (cs ! i)"
      by simp
  qed
  ultimately show ?R by simp
next
  assume R: ?R
  show ?L unfolding noOverlap_def
  proof (intro allI impI)
    fix i j assume ij: "i < length (c # cs)" "j < length (c # cs)" "i \<noteq> j"
    show "editedEnd ((c # cs) ! i) \<le> editedStart ((c # cs) ! j) \<or>
          editedEnd ((c # cs) ! j) \<le> editedStart ((c # cs) ! i)"
    proof (cases i)
      case 0
      with ij obtain j' where "j = Suc j'" "j' < length cs" by (cases j) auto
      with 0 R show ?thesis by auto
    next
      case (Suc i')
      show ?thesis
      proof (cases j)
        case 0
        with Suc ij R show ?thesis by auto
      next
        case (Suc j')
        with \<open>i = Suc i'\<close> ij R show ?thesis by (auto simp: noOverlap_def)
      qed
    qed
  qed
qed

lemmas condition_defs =
  noOverlap_Nil noOverlap_Cons withinTimeline_def
  finiteGestures_def nextNeighbour_def prevNeighbour_def rawWithin_def All_less_Suc

lemmas drag_defs =
  runGestures_def runGesture_def handleTimelineMouseDown_def handleMouseMove_def
  handleMouseUp_def dragClips_def minBound_def maxBound_def otherClips_def
  math_max_def math_min_def dragRightEdge_def dragRightEdgeFar_def pressAndHold_def

subsection \<open>Ingest\<close>

lemma processFrom_records:
  "processFrom rnd i (map Some rs) =
     Inr (map (\<lambda>(j, clip). processClip (rnd j) clip) (enumerate i rs))"
  by (induction rs arbitrary: i) simp_all

lemma processFrom_null:
  "None \<in> set ns \<Longrightarrow> processFrom rnd i ns = Inl (ErrorObj nullReadMessage)"
proof (induction ns arbitrary: i)
  case Nil
  then show ?case by simp
next
  case (Cons n ns)
  show ?case
  proof (cases n)
    case None
    then show ?thesis by simp
  next
    case (Some clip)
    with Cons.prems have "None \<in> set ns" by simp
    from Cons.IH [OF this] Some show ?thesis by simp
  qed
qed

lemma processClips_records: "processClips rnd (map Some rs) = Inr (processed rnd rs)"
  by (simp add: processClips_def processed_def processFrom_records)

lemma processClips_null:
  "None \<in> set ns \<Longrightarrow> processClips rnd ns = Inl (ErrorObj nullReadMessage)"
  by (auto simp: processClips_def processFrom_null)

lemma records_or_null: "None \<in> set ns \<or> ns = map Some (map the ns)"
  by (induction ns) auto

lemma length_processed: "length (processed rnd rs) = length rs"
  by (simp add: processed_def)

lemma nth_processed:
  "i < length rs \<Longrightarrow> processed rnd rs ! i = processClip (rnd i) (rs ! i)"
  by (simp add: processed_def nth_enumerate_eq)

lemma ingest_times:
  "map (\<lambda>c. (editedStart c, editedEnd c)) (map toEditingClip (processed rnd rs)) =
   map (\<lambda>r. (orNumber (raw_start_time r) 0, orNumber (raw_end_time r) 0)) rs"
  by (rule nth_equalityI)
     (simp_all add: length_processed nth_processed toEditingClip_def processClip_def)

lemma ingest_originals:
  "map (\<lambda>c. (originalStart c, originalEnd c)) (map toEditingClip (processed rnd rs)) =
   map (\<lambda>r. (orNumber (raw_start_time r) 0, orNumber (raw_end_time r) 0)) rs"
  by (rule nth_equalityI)
     (simp_all add: length_processed nth_processed toEditingClip_def processClip_def)

lemma pollStatus_records:
  "pollStatus rnd (Inr \<lparr>status_job = ''complete'', message_job = m, results = Some (map Some rs)\<rparr>) st =
     st\<lparr>jobStatus := Some \<lparr>status_job = ''complete'', message_job = m,
                            results = Some (map Some rs)\<rparr>,
        editingClips := map toEditingClip (processed rnd rs),
        appState := Editing\<rparr>"
  by (simp add: pollStatus_def processClips_records)

lemma pollStatus_null:
  "status_job s = ''complete'' \<Longrightarrow> results s = Some ns \<Longrightarrow> None \<in> set ns \<Longrightarrow>
   pollStatus rnd (Inr s) st = pollFailed (ErrorObj nullReadMessage) (st\<lparr>jobStatus := Some s\<rparr>)"
  by (simp add: pollStatus_def processClips_null)

lemma withinTimeline_ingest:
  "withinTimeline d (map toEditingClip (processed rnd rs)) = (\<forall>r \<in> set rs. rawWithin d r)"
proof -
  have "withinTimeline d (map toEditingClip (processed rnd rs)) =
        (\<forall>i < length rs. rawWithin d (rs ! i))"
    by (simp add: withinTimeline_def all_set_conv_all_nth length_processed nth_processed
        toEditingClip_def processClip_def rawWithin_def)
  then show ?thesis by (simp add: all_set_conv_all_nth)
qed

lemma processClips_cases:
  "processClips rnd ns =
     (if None \<in> set ns then Inl (ErrorObj nullReadMessage)
      else Inr (processed rnd (map the ns)))"
proof (cases "None \<in> set ns")
  case True
  then show ?thesis by (simp add: processClips_null)
next
  case False
  with records_or_null [of ns] have eq: "ns = map Some (map the ns)" by blast
  from arg_cong [OF eq, of "processClips rnd"]
  have "processClips rnd ns = processClips rnd (map Some (map the ns))" .
  also have "\<dots> = Inr (processed rnd (map the ns))" by (rule processClips_records)
  finally show ?thesis using False by simp
qed

lemma ingested_eq:
  "ingested rs =
     submittedPage\<lparr>jobStatus := Some \<lparr>status_job = ''complete'', message_job = ''done'',
                                      results = Some (map Some rs)\<rparr>,
                   editingClips := map toEditingClip (processed (\<lambda>i. ''0.5'') rs),
                   appState := Editing\<rparr>"
  by (simp add: ingested_def completeWith_def pollStatus_records)

lemmas ingest_defs =
  editingPage_def ingested_eq onLoadedMetadata_def
  submittedPage_def submittedWithoutId_def filledPage_def handleSubmit_def isFormValid_def
  trim_def isWhiteSpace_def changeUrl_def changePrompt_def
  initialPage_def processed_def processClip_def toEditingClip_def
  rawTimes_def orNumber_def orString_def Let_def

section \<open>The claims\<close>

subsection \<open>C1: dragging and overlap\<close>

text \<open>
  Claim C1 says that a drag-move event on a collection whose clips are pairwise apart and
  at least one second long leaves the clips pairwise apart. The handler takes its bounds
  from the other clips to this end, but for a move it computes
  \<^verbatim>\<open>maxBound - clipDuration\<close> and \<^verbatim>\<open>newStart + clipDuration\<close> in doubles, and the sum
  of the rounded difference and the duration can exceed \<^verbatim>\<open>maxBound\<close>: for the clips
  \<open>[0, 2.3)\<close> and \<open>[11.1, 16.1)\<close> a move of the first clip against the second gives the
  start \<open>11.1 - 2.3 = 8.8\<close> and the end \<open>8.8 + 2.3 = 11.100000000000001\<close>, beyond the start
  \<open>11.1\<close> of the second clip. The rounding of doubles is outside the exact arithmetic of
  \<open>dragClips\<close>, so no theorem about the claim is stated here.
\<close>

subsection \<open>C2: a boundary stops at the neighbour\<close>

text \<open>
  Claim C2 as written: a boundary asked to go beyond the edge of a neighbouring clip lands
  exactly at that edge. It fails when the edge lies beyond the timeline of 120 s: with the
  clips \<open>[100, 110)\<close> and \<open>[130, 140)\<close>, the right edge of the first clip asked to go
  to 135 lands at 120, not at 130.
\<close>

theorem clamp_counterexample:
  "videoDuration (editingPage laterClips) = 120 \<and>
   nextNeighbour (editingClips (editingPage laterClips)) 0 1 \<and>
   editedStart (editingClips (editingPage laterClips) ! 1) = 130 \<and>
   editedEnd (dragClips DragEnd 0 120 135 (editingClips (editingPage laterClips)) ! 0) = 120 \<and>
   editedEnd (editingClips (runGesture (editingPage laterClips) dragRightEdgeFar) ! 0) = 120"
  by (simp add: ingest_defs drag_defs condition_defs laterClips_def)

text \<open>
  Claim C2, amended: a boundary that the handler sets by clamping alone, asked to go to or
  beyond the edge of the nearest neighbouring clip, lands at that edge cut to the timeline:
  the right edge of a trimmed clip at the smaller of the neighbour's start and the timeline
  duration, the left edge of a trimmed clip and the start of a moved clip at the larger of
  the neighbour's end and zero; hence exactly at the neighbour's edge whenever that edge
  lies within the timeline. A trimmed edge never goes beyond the neighbour's edge, and no
  other clip changes. In the scenario, with the timeline of 120 s that the loaded preview
  sets, the right edge of clip 1 asked to go to 15 lands at 10 and clip 2 is unchanged.
  Where the end of a moved clip lands is left out: the handler adds the duration to the
  clamped start, and that sum is rounded (see C1). The boundaries stated here are results
  of \<^verbatim>\<open>Math.min\<close> and \<^verbatim>\<open>Math.max\<close>, which return one of their arguments.
\<close>

theorem clamp_at_neighbour:
  assumes "k < length clips"
  shows
    "(nextNeighbour clips k j \<and> editedStart (clips ! j) \<le> v \<longrightarrow>
        editedEnd (dragClips DragEnd k d v clips ! k) = min d (editedStart (clips ! j))) \<and>
     (prevNeighbour clips k j \<and> v \<le> editedEnd (clips ! j) \<longrightarrow>
        editedStart (dragClips DragStart k d v clips ! k) = max 0 (editedEnd (clips ! j)) \<and>
        editedStart (dragClips DragMove k d v clips ! k) = max 0 (editedEnd (clips ! j))) \<and>
     (j < length clips \<and> j \<noteq> k \<and> editedEnd (clips ! k) \<le> editedStart (clips ! j) \<longrightarrow>
        editedEnd (dragClips DragEnd k d v clips ! k) \<le> editedStart (clips ! j)) \<and>
     (j < length clips \<and> j \<noteq> k \<and> editedEnd (clips ! j) \<le> editedStart (clips ! k) \<longrightarrow>
        editedEnd (clips ! j) \<le> editedStart (dragClips DragStart k d v clips ! k)) \<and>
     (j \<noteq> k \<longrightarrow> dragClips dt k d v clips ! j = clips ! j) \<and>
     editedEnd (editingClips (runGesture (editingPage scenario) dragRightEdge) ! 0) = 10 \<and>
     editingClips (runGesture (editingPage scenario) dragRightEdge) ! 1 =
       editingClips (editingPage scenario) ! 1"
proof -
  note k = assms
  have never_end: "editedEnd (dragClips DragEnd k d v clips ! k) \<le> editedStart (clips ! j)"
    if "j < length clips" "j \<noteq> k" "editedEnd (clips ! k) \<le> editedStart (clips ! j)"
    using maxBound_le [OF that, of d] k by (auto simp: dragClips_def Let_def)
  have never_start: "editedEnd (clips ! j) \<le> editedStart (dragClips DragStart k d v clips ! k)"
    if "j < length clips" "j \<noteq> k" "editedEnd (clips ! j) \<le> editedStart (clips ! k)"
    using minBound_ge [OF that] k by (auto simp: dragClips_def Let_def)
  have s1: "editedEnd (editingClips (runGesture (editingPage scenario) dragRightEdge) ! 0) = 10"
    by (simp add: ingest_defs drag_defs scenario_def)
  have s2: "editingClips (runGesture (editingPage scenario) dragRightEdge) ! 1 =
       editingClips (editingPage scenario) ! 1"
    by (simp add: ingest_defs drag_defs scenario_def)
  show ?thesis
    using trimEnd_lands [OF k] trimStart_lands [OF k] moveLeft_lands [OF k]
      never_end never_start dragClips_other [of j k dt d v clips] s1 s2
    by blast
qed

theorem clamp_at_neighbour_witness:
  "nextNeighbour (editingClips (editingPage gapClips)) 0 1 \<and>
   prevNeighbour (editingClips (editingPage gapClips)) 1 0 \<and>
   editedEnd (editingClips (editingPage gapClips) ! 0) = 10 \<and>
   editedEnd (dragClips DragEnd 0 120 15 (editingClips (editingPage gapClips)) ! 0) = 14 \<and>
   editedStart (editingClips (editingPage gapClips) ! 1) = 14 \<and>
   editedStart (dragClips DragStart 1 120 5 (editingClips (editingPage gapClips)) ! 1) = 10 \<and>
   editedStart (dragClips DragMove 1 120 5 (editingClips (editingPage gapClips)) ! 1) = 10 \<and>
   dragClips DragEnd 0 120 15 (editingClips (editingPage gapClips)) ! 1 =
     editingClips (editingPage gapClips) ! 1"
proof -
  let ?clips = "editingClips (editingPage gapClips)"
  have len: "0 < length ?clips" "1 < length ?clips"
    by (simp_all add: ingest_defs gapClips_def)
  have n: "nextNeighbour ?clips 0 1" and p: "prevNeighbour ?clips 1 0"
    by (simp_all add: ingest_defs condition_defs gapClips_def)
  have vals: "editedStart (?clips ! 0) = 0" "editedEnd (?clips ! 0) = 10"
    "editedStart (?clips ! 1) = 14" "editedEnd (?clips ! 1) = 20"
    by (simp_all add: ingest_defs gapClips_def)
  from clamp_at_neighbour [OF len(1), where j = 1 and v = 15 and d = 120 and dt = DragEnd]
    clamp_at_neighbour [OF len(2), where j = 0 and v = 5 and d = 120 and dt = DragStart]
    n p vals
  show ?thesis by simp
qed

subsection \<open>C3: the outcome of finalize\<close>

text \<open>
  Claim C3: when the finalize call returns a response of status \<^verbatim>\<open>success\<close>, the page
  goes to the complete state and the finalized clips are exactly the list of the response,
  whatever they were before; when the call throws or returns any other status, the page
  goes to the error state, not back to editing; \<^verbatim>\<open>finalizeClips\<close> throws when
  \<^verbatim>\<open>fetch\<close> throws and when the response is not \<^verbatim>\<open>ok\<close>. Stated for a whole run of
  \<^verbatim>\<open>handleFinalize\<close> from a page with a job id and no finalize in flight, and for the
  part of the handler that runs once the call settles, from any page.
\<close>

theorem finalize_outcome:
  assumes "jobId st \<noteq> ''''" and "\<not> isFinalizingClips st"
  shows
    "(status_fin r = ''success'' \<longrightarrow>
        appState (handleFinalize (Inr r) st) = Complete \<and>
        finalizedClips (handleFinalize (Inr r) st) = finalized_clips r \<and>
        appState (handleFinalize_settle (Inr r) st') = Complete \<and>
        finalizedClips (handleFinalize_settle (Inr r) st') = finalized_clips r) \<and>
     (status_fin r \<noteq> ''success'' \<longrightarrow>
        appState (handleFinalize (Inr r) st) = Error \<and>
        appState (handleFinalize_settle (Inr r) st') = Error) \<and>
     appState (handleFinalize (Inl err) st) = Error \<and>
     appState (handleFinalize_settle (Inl err) st') = Error \<and>
     (\<not> ok response \<longrightarrow> appState (handleFinalize (finalizeClips (Inr response)) st) = Error) \<and>
     appState (handleFinalize (finalizeClips (Inl err)) st) = Error \<and>
     appState (fst (handleFinalize_start st)) = Processing \<and>
     isFinalizingClips (fst (handleFinalize_start st))"
  using assms
  by (simp add: handleFinalize_def handleFinalize_start_def handleFinalize_settle_def
      finalizeFailed_def finalizeClips_def Let_def)

theorem finalize_outcome_witness:
  "jobId (editingPage scenario) \<noteq> '''' \<and>
   \<not> isFinalizingClips (editingPage scenario) \<and>
   status_fin twoFinalized = ''success'' \<and>
   appState (handleFinalize (Inr twoFinalized) (editingPage scenario)) = Complete \<and>
   finalizedClips (handleFinalize (Inr twoFinalized) (editingPage scenario)) =
     [Some (rawTimes ''1'' 0 8), Some (rawTimes ''2'' 12 20)] \<and>
   status_fin refused \<noteq> ''success'' \<and>
   appState (handleFinalize (Inr refused) (editingPage scenario)) = Error \<and>
   appState (handleFinalize (Inl (ErrorObj ''Failed to fetch'')) (editingPage scenario)) = Error \<and>
   appState (handleFinalize (finalizeClips serverError) (editingPage scenario)) = Error"
proof -
  have h1: "jobId (editingPage scenario) \<noteq> ''''" and h2: "\<not> isFinalizingClips (editingPage scenario)"
    by (simp_all add: ingest_defs)
  from finalize_outcome [OF h1 h2, where r = twoFinalized and st' = "editingPage scenario"
      and err = "ErrorObj ''Failed to fetch''"
      and response = "\<lparr>ok = False, status_http = ''500'', statusText = ''Internal Server Error'',
          json = Inl (ErrorObj ''Unexpected token'')\<rparr>"]
    finalize_outcome [OF h1 h2, where r = refused and st' = "editingPage scenario"
      and err = "ErrorObj ''Failed to fetch''"
      and response = "\<lparr>ok = False, status_http = ''500'', statusText = ''Internal Server Error'',
          json = Inl (ErrorObj ''Unexpected token'')\<rparr>"]
    h1 h2
  show ?thesis by (simp add: twoFinalized_def refused_def serverError_def)
qed

subsection \<open>C4: when the job status is polled\<close>

text \<open>
  Claim C4 as written: a poll is issued if and only if the page is in the processing state
  and no finalize call is in flight. The effect has a third guard, the job id: a page in
  the processing state with an empty job id and no finalize in flight, as a submission
  answered without a job id leaves it, issues no poll and installs no interval.
\<close>

theorem polling_counterexample:
  "appState submittedWithoutId = Processing \<and>
   \<not> isFinalizingClips submittedWithoutId \<and>
   issued (commitRender filledPage submittedWithoutId idle) = 0 \<and>
   interval (commitRender filledPage submittedWithoutId idle) = None \<and>
   issued (intervalTick (commitRender filledPage submittedWithoutId idle)) = 0"
  by (simp add: ingest_defs commitRender_def pollingEffect_def clearInterval_def
      intervalTick_def idle_def)

text \<open>
  Claim C4, amended: when a render with a changed dependency is committed, a poll is
  issued at once, and an interval of 3000 ms is installed whose every tick issues one
  more poll, if and only if the page is in the processing state, the job id is not empty
  and no finalize call is in flight; otherwise the interval of the previous render is
  cleared, no poll is issued at once and a tick issues none.
\<close>

theorem polling_discipline:
  assumes "\<not> (appState old = appState new \<and> jobId old = jobId new \<and>
         isFinalizingClips old = isFinalizingClips new)"
  shows
    "interval (commitRender old new p) =
       (if appState new = Processing \<and> jobId new \<noteq> '''' \<and> \<not> isFinalizingClips new
        then Some 3000 else None) \<and>
     issued (commitRender old new p) =
       (if appState new = Processing \<and> jobId new \<noteq> '''' \<and> \<not> isFinalizingClips new
        then issued p + 1 else issued p) \<and>
     issued (intervalTick (commitRender old new p)) =
       (if appState new = Processing \<and> jobId new \<noteq> '''' \<and> \<not> isFinalizingClips new
        then issued (commitRender old new p) + 1 else issued (commitRender old new p))"
  using assms
  by (auto simp add: commitRender_def pollingEffect_def clearInterval_def intervalTick_def)

theorem polling_discipline_witness:
  "interval afterSubmit = Some 3000 \<and>
   issued afterSubmit = 1 \<and>
   issued (intervalTick afterSubmit) = 2 \<and>
   interval afterIngest = None \<and>
   issued (intervalTick afterIngest) = 1 \<and>
   appState finalizingPage = Processing \<and>
   interval afterFinalizeStart = None \<and>
   issued (intervalTick afterFinalizeStart) = 1"
proof -
  have c1: "\<not> (appState filledPage = appState submittedPage \<and>
         jobId filledPage = jobId submittedPage \<and>
         isFinalizingClips filledPage = isFinalizingClips submittedPage)"
    by (simp add: ingest_defs)
  have c2: "\<not> (appState submittedPage = appState (ingested scenario) \<and>
         jobId submittedPage = jobId (ingested scenario) \<and>
         isFinalizingClips submittedPage = isFinalizingClips (ingested scenario))"
    by (simp add: ingest_defs)
  have c3: "\<not> (appState (editingPage scenario) = appState finalizingPage \<and>
         jobId (editingPage scenario) = jobId finalizingPage \<and>
         isFinalizingClips (editingPage scenario) = isFinalizingClips finalizingPage)"
    by (simp add: ingest_defs finalizingPage_def handleFinalize_start_def)
  have vals: "appState submittedPage = Processing" "jobId submittedPage = ''job-1''"
    "\<not> isFinalizingClips submittedPage" "appState (ingested scenario) = Editing"
    "appState finalizingPage = Processing" "isFinalizingClips finalizingPage"
    by (simp_all add: ingest_defs finalizingPage_def handleFinalize_start_def)
  from polling_discipline [OF c1, of idle] polling_discipline [OF c2, of afterSubmit]
    polling_discipline [OF c3, of afterIngest] vals
  show ?thesis by (simp add: idle_def afterSubmit_def afterIngest_def afterFinalizeStart_def)
qed

subsection \<open>C5: ingest does not validate the bounds\<close>

text \<open>
  Claim C5 as written: a list with a record that lacks a time bound, with a record whose
  start is not below its end, or with two overlapping records makes ingest fail and the
  page go to the error state. The handler has no such check: the list \<open>malformed\<close> has all
  three defects and the page goes to the editing state with four clips.
\<close>

theorem ingest_counterexample:
  "appState (ingested malformed) = Editing \<and>
   map (\<lambda>c. (editedStart c, editedEnd c)) (editingClips (ingested malformed)) =
     [(3, 0), (9, 4), (20, 30), (25, 35)] \<and>
   \<not> noOverlap (editingClips (ingested malformed))"
  by (simp add: ingest_defs condition_defs malformed_def)

text \<open>
  Claim C5, amended: ingest checks no time bound. For an answer of status \<^verbatim>\<open>complete\<close>
  whose list holds records only, whatever their bounds, the page goes to the editing state
  with one clip per record, in order, whose edited and original bounds are the
  \<^verbatim>\<open>start_time\<close> and \<^verbatim>\<open>end_time\<close> of the record, a missing bound read as zero; a
  missing list counts as the empty one. From a page that is not in the error state, the
  page goes to the error state exactly when the status call throws, the answer has the
  status \<^verbatim>\<open>failed\<close> (the error is then its message), or the answer has the status
  \<^verbatim>\<open>complete\<close> and its list holds a \<^verbatim>\<open>null\<close>, on which \<^verbatim>\<open>processClips\<close> throws; the
  clips of the page are then as they were. An answer of any other status changes neither
  the state of the job nor the clips.
\<close>

theorem ingest_unchecked:
  "appState (pollStatus rnd
      (Inr \<lparr>status_job = ''complete'', message_job = m, results = Some (map Some rs)\<rparr>) st)
     = Editing \<and>
   map (\<lambda>c. (editedStart c, editedEnd c))
     (editingClips (pollStatus rnd
        (Inr \<lparr>status_job = ''complete'', message_job = m, results = Some (map Some rs)\<rparr>) st)) =
     map (\<lambda>r. (orNumber (raw_start_time r) 0, orNumber (raw_end_time r) 0)) rs \<and>
   map (\<lambda>c. (originalStart c, originalEnd c))
     (editingClips (pollStatus rnd
        (Inr \<lparr>status_job = ''complete'', message_job = m, results = Some (map Some rs)\<rparr>) st)) =
     map (\<lambda>r. (orNumber (raw_start_time r) 0, orNumber (raw_end_time r) 0)) rs \<and>
   appState (pollStatus rnd
      (Inr \<lparr>status_job = ''complete'', message_job = m, results = None\<rparr>) st) = Editing \<and>
   editingClips (pollStatus rnd
      (Inr \<lparr>status_job = ''complete'', message_job = m, results = None\<rparr>) st) = [] \<and>
   (appState st \<noteq> Error \<longrightarrow>
      (appState (pollStatus rnd outcome st) = Error) =
        (case outcome of
           Inl err \<Rightarrow> True
         | Inr s \<Rightarrow>
             status_job s = ''failed'' \<or>
             status_job s = ''complete'' \<and>
               None \<in> set (case results s of None \<Rightarrow> [] | Some ns \<Rightarrow> ns))) \<and>
   (appState (pollStatus rnd outcome st) = Error \<and> appState st \<noteq> Error \<longrightarrow>
      editingClips (pollStatus rnd outcome st) = editingClips st) \<and>
   (status_job s = ''failed'' \<longrightarrow> error (pollStatus rnd (Inr s) st) = message_job s) \<and>
   (status_job s \<noteq> ''complete'' \<and> status_job s \<noteq> ''failed'' \<longrightarrow>
      appState (pollStatus rnd (Inr s) st) = appState st \<and>
      editingClips (pollStatus rnd (Inr s) st) = editingClips st)"
proof -
  let ?c = "\<lparr>status_job = ''complete'', message_job = m, results = Some (map Some rs)\<rparr>"
  let ?e = "\<lparr>status_job = ''complete'', message_job = m, results = None\<rparr>"
  have records: "appState (pollStatus rnd (Inr ?c) st) = Editing"
    "editingClips (pollStatus rnd (Inr ?c) st) = map toEditingClip (processed rnd rs)"
    by (simp_all add: pollStatus_records)
  have missing: "appState (pollStatus rnd (Inr ?e) st) = Editing"
    "editingClips (pollStatus rnd (Inr ?e) st) = []"
    by (simp_all add: pollStatus_def processClips_def)
  have answered: "appState (pollStatus rnd (Inr a) st) =
      (if status_job a = ''complete''
       then (if None \<in> set (case results a of None \<Rightarrow> [] | Some ns \<Rightarrow> ns) then Error else Editing)
       else if status_job a = ''failed'' then Error else appState st)"
    and kept: "appState (pollStatus rnd (Inr a) st) \<noteq> Editing \<Longrightarrow>
      editingClips (pollStatus rnd (Inr a) st) = editingClips st" for a
  proof -
    obtain ns where ns: "ns = (case results a of None \<Rightarrow> [] | Some ns \<Rightarrow> ns)" by simp
    have run: "pollStatus rnd (Inr a) st =
      (if status_job a = ''complete''
       then (if None \<in> set ns then pollFailed (ErrorObj nullReadMessage) (st\<lparr>jobStatus := Some a\<rparr>)
             else st\<lparr>jobStatus := Some a,
                    editingClips := map toEditingClip (processed rnd (map the ns)),
                    appState := Editing\<rparr>)
       else if status_job a = ''failed''
       then st\<lparr>jobStatus := Some a, error := message_job a, appState := Error\<rparr>
       else st\<lparr>jobStatus := Some a\<rparr>)"
      unfolding ns by (cases "results a") (simp_all add: pollStatus_def processClips_cases Let_def)
    show "appState (pollStatus rnd (Inr a) st) =
      (if status_job a = ''complete''
       then (if None \<in> set (case results a of None \<Rightarrow> [] | Some ns \<Rightarrow> ns) then Error else Editing)
       else if status_job a = ''failed'' then Error else appState st)"
      unfolding run ns [symmetric] by (simp add: pollFailed_def)
    show "editingClips (pollStatus rnd (Inr a) st) = editingClips st"
      if "appState (pollStatus rnd (Inr a) st) \<noteq> Editing"
      using that unfolding run by (simp add: pollFailed_def split: if_splits)
  qed
  have thrown: "appState (pollStatus rnd (Inl err) st) = Error"
    "editingClips (pollStatus rnd (Inl err) st) = editingClips st" for err
    by (simp_all add: pollStatus_def pollFailed_def)
  have iff: "(appState (pollStatus rnd outcome st) = Error) =
        (case outcome of
           Inl err \<Rightarrow> True
         | Inr s \<Rightarrow>
             status_job s = ''failed'' \<or>
             status_job s = ''complete'' \<and>
               None \<in> set (case results s of None \<Rightarrow> [] | Some ns \<Rightarrow> ns))"
    if "appState st \<noteq> Error"
    using that by (cases outcome) (auto simp: thrown answered)
  have clips: "editingClips (pollStatus rnd outcome st) = editingClips st"
    if "appState (pollStatus rnd outcome st) = Error"
    using that by (cases outcome) (auto simp: thrown intro: kept)
  have failed: "error (pollStatus rnd (Inr s) st) = message_job s" if "status_job s = ''failed''"
    using that by (simp add: pollStatus_def)
  have other: "appState (pollStatus rnd (Inr s) st) = appState st \<and>
      editingClips (pollStatus rnd (Inr s) st) = editingClips st"
    if "status_job s \<noteq> ''complete''" "status_job s \<noteq> ''failed''"
    using that by (simp add: pollStatus_def)
  show ?thesis
    unfolding records missing
    using ingest_times [of rnd rs] ingest_originals [of rnd rs] iff clips failed other
    by simp
qed

theorem ingest_unchecked_witness:
  "appState (ingested scenario) = Editing \<and>
   map (\<lambda>c. (editedStart c, editedEnd c)) (editingClips (ingested scenario)) = [(0, 10), (10, 20)] \<and>
   appState (pollStatus (\<lambda>i. ''0.5'') (Inr withNull) submittedPage) = Error \<and>
   editingClips (pollStatus (\<lambda>i. ''0.5'') (Inr withNull) submittedPage) = [] \<and>
   appState (pollStatus (\<lambda>i. ''0.5'') (Inr failedAnswer) submittedPage) = Error \<and>
   error (pollStatus (\<lambda>i. ''0.5'') (Inr failedAnswer) submittedPage) = ''x'' \<and>
   appState (pollStatus (\<lambda>i. ''0.5'') (Inr stillProcessing) submittedPage) = Processing \<and>
   appState (pollStatus (\<lambda>i. ''0.5'') (Inl (ErrorObj ''Network error occurred'')) submittedPage) = Error"
proof -
  have st: "appState submittedPage = Processing" "editingClips submittedPage = []"
    by (simp_all add: ingest_defs)
  have more: "appState submittedPage \<noteq> Error" using st by simp
  from ingest_unchecked [where rnd = "\<lambda>i. ''0.5''" and m = "''done''" and rs = scenario
      and st = submittedPage and outcome = "Inr withNull" and s = failedAnswer]
    ingest_unchecked [where rnd = "\<lambda>i. ''0.5''" and m = "''done''" and rs = scenario
      and st = submittedPage and outcome = "Inr failedAnswer" and s = stillProcessing]
    ingest_unchecked [where rnd = "\<lambda>i. ''0.5''" and m = "''done''" and rs = scenario
      and st = submittedPage and outcome = "Inl (ErrorObj ''Network error occurred'')"
      and s = stillProcessing]
    st more
  show ?thesis
    by (simp add: ingested_def completeWith_def scenario_def rawTimes_def orNumber_def
        withNull_def failedAnswer_def stillProcessing_def)
qed

subsection \<open>C6: the bounds of the clips\<close>

text \<open>
  Claim C6 as written: at every point of the editing state, right after ingest and after
  every drag, every clip has \<open>0 \<le> editedStart < editedEnd \<le> timelineDuration\<close>. Ingest
  copies the bounds of the records unchecked, and the timeline duration is 0 until the
  metadata of the preview load and 120 from then on: right after the ingest of the
  scenario the page is in the editing state with a timeline duration of 0, and once the
  preview of the clips \<open>[100, 110)\<close> and \<open>[130, 140)\<close> is loaded the second clip ends
  beyond the timeline of 120 s.
\<close>

theorem bounds_counterexample:
  "appState (ingested scenario) = Editing \<and>
   videoDuration (ingested scenario) = 0 \<and>
   \<not> withinTimeline (videoDuration (ingested scenario)) (editingClips (ingested scenario)) \<and>
   appState (editingPage laterClips) = Editing \<and>
   videoDuration (editingPage laterClips) = 120 \<and>
   editedEnd (editingClips (editingPage laterClips) ! 1) = 140 \<and>
   \<not> withinTimeline (videoDuration (editingPage laterClips)) (editingClips (editingPage laterClips))"
  by (simp add: ingest_defs condition_defs scenario_def laterClips_def)

text \<open>
  Claim C6, amended: dragging keeps the bounds and ingest does not establish them. If
  every clip has \<open>0 \<le> editedStart < editedEnd \<le> timelineDuration\<close>, then so has every clip
  after any sequence of drag gestures. Right after ingest the clips have these bounds
  exactly when every ingested record has \<open>0 \<le> start_time < end_time \<le> timelineDuration\<close>
  (a missing bound read as zero) for the timeline duration of that moment.
\<close>

theorem drags_keep_bounds:
  assumes "withinTimeline (videoDuration st) (editingClips st)" and "finiteGestures gs"
  shows
    "withinTimeline (videoDuration (runGestures st gs)) (editingClips (runGestures st gs)) \<and>
     videoDuration (runGestures st gs) = videoDuration st \<and>
     withinTimeline (videoDuration st') (editingClips (pollStatus rnd (completeWith rs) st')) =
       (\<forall>r \<in> set rs. rawWithin (videoDuration st') r)"
proof -
  from runGestures_keeps [of withinTimeline st gs, OF withinTimeline_dragClips assms(1)]
  have kept: "withinTimeline (videoDuration (runGestures st gs)) (editingClips (runGestures st gs))" .
  from runGestures_keeps [of "\<lambda>d clips. d = videoDuration st" st gs]
  have same: "videoDuration (runGestures st gs) = videoDuration st" by simp
  have "editingClips (pollStatus rnd (completeWith rs) st') = map toEditingClip (processed rnd rs)"
    and "videoDuration (pollStatus rnd (completeWith rs) st') = videoDuration st'"
    by (simp_all add: completeWith_def pollStatus_records)
  with kept same withinTimeline_ingest [of "videoDuration st'" rnd rs] show ?thesis by simp
qed

theorem drags_keep_bounds_witness:
  "withinTimeline (videoDuration (editingPage scenario)) (editingClips (editingPage scenario)) \<and>
   finiteGestures [dragRightEdge, pressAndHold 300] \<and>
   withinTimeline (videoDuration (runGestures (editingPage scenario) [dragRightEdge, pressAndHold 300]))
     (editingClips (runGestures (editingPage scenario) [dragRightEdge, pressAndHold 300])) \<and>
   videoDuration (runGestures (editingPage scenario) [dragRightEdge, pressAndHold 300]) = 120"
proof -
  have h1: "withinTimeline (videoDuration (editingPage scenario)) (editingClips (editingPage scenario))"
    by (simp add: ingest_defs condition_defs scenario_def)
  have h2: "finiteGestures [dragRightEdge, pressAndHold 300]"
    by (simp add: condition_defs dragRightEdge_def pressAndHold_def)
  have vd: "videoDuration (editingPage scenario) = 120"
    by (simp add: ingest_defs)
  note kept = drags_keep_bounds [OF h1 h2, where st' = submittedPage and rnd = "\<lambda>i. ''0.5''"
      and rs = scenario]
  from kept have a: "withinTimeline
      (videoDuration (runGestures (editingPage scenario) [dragRightEdge, pressAndHold 300]))
      (editingClips (runGestures (editingPage scenario) [dragRightEdge, pressAndHold 300]))"
    by (rule conjunct1)
  from kept vd have b: "videoDuration (runGestures (editingPage scenario)
      [dragRightEdge, pressAndHold 300]) = 120"
    by simp
  from a b h1 h2 show ?thesis by blast
qed

subsection \<open>C7: a second finalize while one is in flight\<close>

text \<open>
  Claim C7: while a finalize call is in flight, that is while \<^verbatim>\<open>isFinalizingClips\<close> is
  set, a call of \<^verbatim>\<open>handleFinalize\<close> sends no request and returns the page as it is, so
  that nothing is kept for later either. The flag is set by the first call: from a page with
  a job id and no call in flight, that call sends a request and a second call right after
  it sends none.
\<close>

theorem duplicate_finalize_ignored:
  "(isFinalizingClips st \<longrightarrow>
      handleFinalize_start st = (st, None) \<and> handleFinalize outcome st = st) \<and>
   (jobId st \<noteq> '''' \<and> \<not> isFinalizingClips st \<longrightarrow>
      isFinalizingClips (fst (handleFinalize_start st)) \<and>
      snd (handleFinalize_start st) =
        Some \<lparr>jobId_req = jobId st, edited_clips = map formatClip (editingClips st)\<rparr> \<and>
      handleFinalize_start (fst (handleFinalize_start st)) = (fst (handleFinalize_start st), None))"
  by (simp add: handleFinalize_def handleFinalize_start_def)

theorem duplicate_finalize_ignored_witness:
  "isFinalizingClips finalizingPage \<and>
   handleFinalize_start finalizingPage = (finalizingPage, None) \<and>
   handleFinalize (Inr twoFinalized) finalizingPage = finalizingPage \<and>
   jobId (editingPage scenario) \<noteq> '''' \<and> \<not> isFinalizingClips (editingPage scenario) \<and>
   snd (handleFinalize_start (editingPage scenario)) \<noteq> None"
proof -
  have h: "jobId (editingPage scenario) \<noteq> ''''" "\<not> isFinalizingClips (editingPage scenario)"
    by (simp_all add: ingest_defs)
  from duplicate_finalize_ignored [of "editingPage scenario" "Inr twoFinalized"] h
  have fin: "isFinalizingClips finalizingPage" and "snd (handleFinalize_start (editingPage scenario)) \<noteq> None"
    by (simp_all add: finalizingPage_def)
  with duplicate_finalize_ignored [of finalizingPage "Inr twoFinalized"] h
  show ?thesis by simp
qed

subsection \<open>C8: captions when the apply call fails\<close>

text \<open>
  Claim C8: when the apply call of the captions modal throws, every clip with the id of the
  clip of the modal has afterwards the caption segments and the style of the modal, and its
  \<^verbatim>\<open>path\<close> is the one it had; the state of the job is unchanged, so the page does not go
  to the error state. The other clips are unchanged.
\<close>

theorem captions_kept_on_failure:
  assumes "i < length (editingClips st)"
  shows
    "(id_clip (editingClips st ! i) = id_clip clip \<longrightarrow>
        captions (editingClips (fst (handleApplyCaptions m clip (Inl err) st)) ! i) =
          Some (captions_m m) \<and>
        captionStyle (editingClips (fst (handleApplyCaptions m clip (Inl err) st)) ! i) =
          Some (captionStyle_m m) \<and>
        path (editingClips (fst (handleApplyCaptions m clip (Inl err) st)) ! i) =
          path (editingClips st ! i)) \<and>
     (id_clip (editingClips st ! i) \<noteq> id_clip clip \<longrightarrow>
        editingClips (fst (handleApplyCaptions m clip (Inl err) st)) ! i = editingClips st ! i) \<and>
     length (editingClips (fst (handleApplyCaptions m clip (Inl err) st))) = length (editingClips st) \<and>
     appState (fst (handleApplyCaptions m clip (Inl err) st)) = appState st \<and>
     error (fst (handleApplyCaptions m clip (Inl err) st)) = error st"
  using assms
  by (simp add: handleApplyCaptions_def handleCaptionsApplied_def closeCaptions_def orString_def)

theorem captions_kept_on_failure_witness:
  "captions (editingClips (fst (handleApplyCaptions editedCaptions (editingClips (editingPage scenario) ! 0)
       (Inl (ErrorObj ''Caption application failed: 500'')) (editingPage scenario))) ! 0) =
     Some (captions_m editedCaptions) \<and>
   path (editingClips (fst (handleApplyCaptions editedCaptions (editingClips (editingPage scenario) ! 0)
       (Inl (ErrorObj ''Caption application failed: 500'')) (editingPage scenario))) ! 0) =
     ''/clips/1.mp4'' \<and>
   editingClips (fst (handleApplyCaptions editedCaptions (editingClips (editingPage scenario) ! 0)
       (Inl (ErrorObj ''Caption application failed: 500'')) (editingPage scenario))) ! 1 =
     editingClips (editingPage scenario) ! 1 \<and>
   appState (fst (handleApplyCaptions editedCaptions (editingClips (editingPage scenario) ! 0)
       (Inl (ErrorObj ''Caption application failed: 500'')) (editingPage scenario))) = Editing"
proof -
  let ?st = "editingPage scenario"
  have len: "0 < length (editingClips ?st)" "1 < length (editingClips ?st)"
    by (simp_all add: ingest_defs scenario_def)
  have vals: "id_clip (editingClips ?st ! 1) \<noteq> id_clip (editingClips ?st ! 0)"
    "path (editingClips ?st ! 0) = ''/clips/1.mp4''" "appState ?st = Editing"
    by (simp_all add: ingest_defs scenario_def)
  from captions_kept_on_failure [OF len(1), where clip = "editingClips ?st ! 0"
      and m = editedCaptions and err = "ErrorObj ''Caption application failed: 500''"]
    captions_kept_on_failure [OF len(2), where clip = "editingClips ?st ! 0"
      and m = editedCaptions and err = "ErrorObj ''Caption application failed: 500''"]
    vals
  show ?thesis by simp
qed

subsection \<open>C9: a gesture without net movement\<close>

text \<open>
  Claim C9 says that a gesture whose pointer ends where it was pressed leaves the bounds of
  the selected clip as they were. The handler of the move events takes the pointer
  position and the value of the press from \<^verbatim>\<open>dragStartX\<close> and \<^verbatim>\<open>dragStartValue\<close> of
  the render in which the press happened, which are those of the gesture before (0 and 0
  for the first gesture), not the ones that the press has just stored. For the single clip
  \<open>[10, 20)\<close> on the loaded timeline, a press on the body at 500 px and one move event at
  500 px puts the clip at \<open>[50, 60)\<close>; the press itself stored 500 px and 10 s.
\<close>

theorem zero_movement_moves_clip:
  "map (\<lambda>c. (editedStart c, editedEnd c)) (editingClips (editingPage [rawTimes ''1'' 10 20])) =
     [(10, 20)] \<and>
   map (\<lambda>c. (editedStart c, editedEnd c))
     (editingClips (runGesture (editingPage [rawTimes ''1'' 10 20]) (pressAndHold 500))) =
     [(50, 60)] \<and>
   dragStartX (runGesture (editingPage [rawTimes ''1'' 10 20]) (pressAndHold 500)) = 500 \<and>
   dragStartValue (runGesture (editingPage [rawTimes ''1'' 10 20]) (pressAndHold 500)) = 10"
  by (simp add: ingest_defs drag_defs)

subsection \<open>C10: the timeline is 120 seconds long\<close>

text \<open>
  Claim C10: when the metadata of the preview load, the timeline duration becomes 120,
  whatever the duration of the loaded video and whatever the clips, which stay as they are
  and may lie beyond 120. A drag that starts afterwards maps pixels to seconds and clamps
  with 120, and the boxes of the clips are drawn in percent of 120.
\<close>

theorem timeline_is_120_seconds:
  "videoDuration (onLoadedMetadata loaded st) = 120 \<and>
   editingClips (onLoadedMetadata loaded st) = editingClips st \<and>
   (handleTimelineMouseDown (onLoadedMetadata loaded st) mounted x dt k = (st', Some cl) \<longrightarrow>
      videoDuration_c cl = 120 \<and>
      (timelineWidth e = Some w \<and> w \<noteq> 0 \<and> k < length (editingClips st) \<longrightarrow>
         editingClips (handleMouseMove cl e st'') =
           dragClips dt k 120 (dragStartValue_c cl + (clientX e - dragStartX_c cl) / w * 120)
             (editingClips st))) \<and>
   clipBox (onLoadedMetadata loaded st) c =
     (case map editedStart (editingClips st) of
        [] \<Rightarrow> None
      | s # ss \<Rightarrow> Some ((editedStart c - math_min s ss) / 120 * 100,
                        (editedEnd c - editedStart c) / 120 * 100)) \<and>
   videoDuration (editingPage laterClips) = 120 \<and>
   editedEnd (editingClips (editingPage laterClips) ! 1) = 140"
proof -
  have drag: "videoDuration_c cl = 120 \<and>
      (timelineWidth e = Some w \<and> w \<noteq> 0 \<and> k < length (editingClips st) \<longrightarrow>
         editingClips (handleMouseMove cl e st'') =
           dragClips dt k 120 (dragStartValue_c cl + (clientX e - dragStartX_c cl) / w * 120)
             (editingClips st))"
    if "handleTimelineMouseDown (onLoadedMetadata loaded st) mounted x dt k = (st', Some cl)"
    using that
    by (auto simp: handleTimelineMouseDown_def handleMouseMove_def onLoadedMetadata_def Let_def
        split: if_splits)
  have box: "clipBox (onLoadedMetadata loaded st) c =
     (case map editedStart (editingClips st) of
        [] \<Rightarrow> None
      | s # ss \<Rightarrow> Some ((editedStart c - math_min s ss) / 120 * 100,
                        (editedEnd c - editedStart c) / 120 * 100))"
    by (simp add: onLoadedMetadata_def clipBox_def Let_def split: list.split)
  have ex: "videoDuration (editingPage laterClips) = 120"
    "editedEnd (editingClips (editingPage laterClips) ! 1) = 140"
    by (simp_all add: ingest_defs laterClips_def)
  have "videoDuration (onLoadedMetadata loaded st) = 120"
    "editingClips (onLoadedMetadata loaded st) = editingClips st"
    by (simp_all add: onLoadedMetadata_def Let_def)
  with drag box ex show ?thesis by blast
qed

theorem timeline_is_120_seconds_witness:
  "videoDuration (onLoadedMetadata 600 (ingested laterClips)) = 120 \<and>
   videoDuration (onLoadedMetadata 45 (ingested laterClips)) = 120 \<and>
   videoDuration_c (the (snd (handleTimelineMouseDown (editingPage laterClips) True 1100 DragEnd 0))) = 120 \<and>
   editedEnd (editingClips (runGesture (editingPage laterClips) dragRightEdgeFar) ! 0) =
     editedEnd (dragClips DragEnd 0 120 135 (editingClips (ingested laterClips)) ! 0)"
proof -
  obtain st' cl where press:
    "handleTimelineMouseDown (onLoadedMetadata 600 (ingested laterClips)) True 1100 DragEnd 0 = (st', Some cl)"
    and cl: "dragStartValue_c cl = 0" "dragStartX_c cl = 0"
    by (simp add: handleTimelineMouseDown_def ingest_defs laterClips_def)
  have len: "0 < length (editingClips (ingested laterClips))"
    by (simp add: ingest_defs laterClips_def)
  have run: "runGesture (editingPage laterClips) dragRightEdgeFar =
      handleMouseUp (handleMouseMove cl \<lparr>clientX = 1350, timelineWidth = Some 1200\<rparr> st')"
    using press by (simp add: runGesture_def dragRightEdgeFar_def editingPage_def)
  from timeline_is_120_seconds [where loaded = 600 and st = "ingested laterClips" and mounted = True
      and x = 1100 and dt = DragEnd and k = 0 and st' = st' and cl = cl
      and e = "\<lparr>clientX = 1350, timelineWidth = Some 1200\<rparr>" and w = 1200 and st'' = st']
    timeline_is_120_seconds [where loaded = 45 and st = "ingested laterClips"]
    press len cl run
  show ?thesis by (simp add: editingPage_def handleMouseUp_def)
qed

end
